theory Spec2Isabelle
  imports Main
begin

section \<open>The room state machine of the Liveblocks client\<close>

text \<open>
  This theory embeds the parts of \<^verbatim>\<open>makeStateMachine\<close> (the per-room client state
  machine) that deal with history, presence, the flush scheduler, the apply loop and the
  connection life cycle. Each definition follows one function of the source and keeps
  its name, its order of statements and its checks.

  Conventions of the embedding:
  \<^item> The mutable \<^verbatim>\<open>state\<close> object is a record that every function takes and returns.
  \<^item> A \<^verbatim>\<open>throw\<close> is a value: a function that can throw returns an \<open>error option\<close>
    (or \<open>error + 'a\<close>) together with the state as it was when the exception left the
    function, so the writes made before the throw stay visible.
  \<^item> Everything the machine calls outside itself (the injected effects, the timers and
    the registered listeners) is appended to the field \<open>trace\<close>, in call order. The
    field is not part of the source's \<^verbatim>\<open>State\<close>; it is the observable output of the
    model. Assignments to \<^verbatim>\<open>state.connection\<close> are recorded there as well, so that a
    transition that is overwritten within one call stays visible.
  \<^item> Listeners are opaque callbacks; a listener is represented by a number and a call
    of it by an entry of the trace.
  \<^item> The CRDT nodes (\<^verbatim>\<open>LiveObject\<close>, \<^verbatim>\<open>LiveList\<close>, ...), \<^verbatim>\<open>mergeStorageUpdates\<close>,
    the close code \<^verbatim>\<open>CLOSE_WITHOUT_RETRY\<close> and the effects live outside the modelled
    file; they are fields of the environment record \<open>env\<close>, and every theorem holds for
    all of them.
  \<^item> \<^verbatim>\<open>Date.now()\<close> is the field \<open>date_now\<close> of the environment: one call into the
    machine reads one clock value.
  \<^item> JavaScript objects are association lists in insertion order. The source sometimes
    uses one object both as \<^verbatim>\<open>state.me\<close> and as \<^verbatim>\<open>state.buffer.presence.data\<close>, and a
    write through the buffer then changes \<^verbatim>\<open>state.me\<close> too. The field
    \<open>presence_shared\<close> (as \<open>trace\<close>, not a field of the source's \<^verbatim>\<open>State\<close>) says that
    the two are the same object at the moment.
  \<^item> An effect is opaque: a call of it is recorded in the trace and the handle it
    returns is taken from the environment. What the default implementation of an effect
    does when it is called (\<^verbatim>\<open>effects.authenticate\<close> may call back into the machine) is
    outside the model.
  \<^item> Diagnostic output (\<^verbatim>\<open>console.error\<close>, \<^verbatim>\<open>console.warn\<close>, \<^verbatim>\<open>log\<close>) is left out.
\<close>

subsection \<open>JSON values, objects and maps\<close>

datatype json =
    JUndefined
  | JNull
  | JBool bool
  | JNum int
  | JStr string
  | JArr "json list"
  | JObj "(string \<times> json) list"

type_synonym jsobj = "(string \<times> json) list"

text \<open>\<^verbatim>\<open>m.set(k, v)\<close> and \<^verbatim>\<open>o[k] = v\<close>: an existing key keeps its position.\<close>

fun kv_set :: "('k \<times> 'v) list \<Rightarrow> 'k \<Rightarrow> 'v \<Rightarrow> ('k \<times> 'v) list" where
  "kv_set [] k v = [(k, v)]"
| "kv_set ((k', v') # r) k v = (if k' = k then (k, v) # r else (k', v') # kv_set r k v)"

text \<open>\<^verbatim>\<open>m.get(k)\<close>: \<open>None\<close> stands for \<^verbatim>\<open>undefined\<close>.\<close>

definition kv_get :: "('k \<times> 'v) list \<Rightarrow> 'k \<Rightarrow> 'v option" where
  "kv_get m k = map_of m k"

text \<open>\<^verbatim>\<open>m.delete(k)\<close> returns whether the key was there.\<close>

definition kv_delete :: "('k \<times> 'v) list \<Rightarrow> 'k \<Rightarrow> bool \<times> ('k \<times> 'v) list" where
  "kv_delete m k = (k \<in> fst ` set m, filter (\<lambda>p. fst p \<noteq> k) m)"

text \<open>\<^verbatim>\<open>o[k]\<close> on an object: a missing key reads as \<^verbatim>\<open>undefined\<close>.\<close>

definition obj_get :: "jsobj \<Rightarrow> string \<Rightarrow> json" where
  "obj_get obj k = (case map_of obj k of None \<Rightarrow> JUndefined | Some v \<Rightarrow> v)"

text \<open>\<^verbatim>\<open>{ ...a, ...b }\<close>: a fresh object with the entries of \<open>a\<close>, then those of \<open>b\<close>.\<close>

definition spread :: "jsobj \<Rightarrow> jsobj \<Rightarrow> jsobj" where
  "spread a b = fold (\<lambda>p acc. kv_set acc (fst p) (snd p)) (a @ b) []"

text \<open>The decimal digits of a number, as the template literals print it.\<close>

fun string_of_nat :: "nat \<Rightarrow> string" where
  "string_of_nat n =
     (if n < 10 then [char_of (48 + n)]
      else string_of_nat (n div 10) @ [char_of (48 + n mod 10)])"

subsection \<open>Operations, history entries and CRDT nodes\<close>

datatype OpCode =
    CREATE_OBJECT | CREATE_LIST | CREATE_MAP | CREATE_REGISTER
  | UPDATE_OBJECT | DELETE_OBJECT_KEY | DELETE_CRDT | SET_PARENT_KEY

record op =
  op_type :: OpCode
  opId :: "string option"
  op_id :: string
  parentId :: "string option"
  parentKey :: "string option"
  op_key :: "string option"
  op_data :: json

text \<open>
  The record \<open>op\<close> has the fields of an \<^verbatim>\<open>Op\<close> that the machine reads (\<^verbatim>\<open>type\<close>,
  \<^verbatim>\<open>opId\<close>, \<^verbatim>\<open>id\<close>, \<^verbatim>\<open>parentId\<close>, \<^verbatim>\<open>parentKey\<close>) and the \<^verbatim>\<open>key\<close> and \<^verbatim>\<open>data\<close> that
  the nodes read. An element of a \<^verbatim>\<open>HistoryItem\<close> is an op, or
  \<^verbatim>\<open>{ type: "presence", data }\<close>.
\<close>

datatype hist_entry = OpEntry op | PresenceEntry jsobj

type_synonym HistoryItem = "hist_entry list"

text \<open>
  What the machine reads of a live node: \<^verbatim>\<open>_id\<close>, \<^verbatim>\<open>parent\<close> (\<open>Some p\<close> for
  \<^verbatim>\<open>HasParent\<close>), whether it is a \<^verbatim>\<open>LiveList\<close>, and its content.
\<close>

datatype node = Node (node_id: "string option") (node_parent: "node option")
  (isLiveList: bool) (node_content: json)

record StorageUpdate =
  upd_node :: node
  upd_change :: json

datatype ApplyResult = NotModified | Modified StorageUpdate "op list"

datatype OpSource = UNDOREDO_RECONNECT | REMOTE | ACK

type_synonym items = "(string \<times> node) list"

subsection \<open>Users, messages and the connection\<close>

record public_user =
  connectionId :: nat
  user_id :: "string option"
  info :: "json option"
  presence :: "jsobj option"

record user = public_user +
  hasReceivedInitialPresence :: bool

datatype OthersEvent = Reset | Update jsobj user | Enter user | Leave user

datatype ClientMsg =
    UPDATE_PRESENCE jsobj "int option"
  | BROADCAST_EVENT json
  | UPDATE_STORAGE "op list"
  | FETCH_STORAGE

record UpdatePresenceServerMsg =
  actor :: nat
  msg_data :: jsobj
  targetActor :: "int option"

datatype Connection =
    Closed
  | Authenticating
  | Connecting nat "string option" "json option"
  | Open nat "string option" "json option"
  | Unavailable
  | Failed

fun connection_state :: "Connection \<Rightarrow> string" where
  "connection_state Closed = ''closed''"
| "connection_state Authenticating = ''authenticating''"
| "connection_state (Connecting i u n) = ''connecting''"
| "connection_state (Open i u n) = ''open''"
| "connection_state Unavailable = ''unavailable''"
| "connection_state Failed = ''failed''"

datatype ReadyState = WS_CONNECTING | WS_OPEN | WS_CLOSING | WS_CLOSED

datatype presence_kind = Partial | Full

record presence_update =
  ptype :: presence_kind
  pdata :: jsobj

subsection \<open>Errors and the trace\<close>

datatype error =
    UndoDuringBatch
  | RedoDuringBatch
  | BatchDuringBatch
  | ConnectionNeverOpen
  | AssertionFailed
  | NoFetchPolyfill
  | NoWebSocketPolyfill
  | CallbackError string

datatype call =
    OthersListener nat "public_user list" OthersEvent
  | MyPresenceListener nat jsobj
  | StorageListener nat "StorageUpdate list"
  | HistoryListener nat bool bool
  | ConnectionListener nat string
  | ErrorListener nat string int
  | SetConnection Connection
  | Authenticate
  | Send "ClientMsg list"
  | DelayFlush int
  | StartHeartbeatInterval
  | SchedulePongTimeout
  | ScheduleReconnect int
  | ClearTimeout int
  | ClearInterval int

subsection \<open>The state\<close>

record buffer =
  buf_presence :: "presence_update option"
  messages :: "ClientMsg list"
  storageOperations :: "op list"

record timeoutHandles =
  flush :: "int option"
  reconnect :: int
  pongTimeout :: int

record intervalHandles =
  heartbeat :: int

record listeners =
  on_event :: "nat list"
  on_others :: "nat list"
  on_my_presence :: "nat list"
  on_error :: "nat list"
  on_connection :: "nat list"
  on_storage :: "nat list"
  on_history :: "nat list"

record batch_updates =
  b_presence :: bool
  b_storageUpdates :: "(string \<times> StorageUpdate) list"

record batch_state =
  ops :: "op list"
  reverseOps :: HistoryItem
  updates :: batch_updates

record state =
  connection :: Connection
  token :: "string option"
  lastConnectionId :: "nat option"
  socket :: "ReadyState option"
  lastFlushTime :: int
  buffer :: buffer
  timeoutHandles :: timeoutHandles
  intervalHandles :: intervalHandles
  listeners :: listeners
  me :: jsobj
  others :: "public_user list"
  users :: "(nat \<times> user) list"
  numberOfRetry :: nat
  defaultStorageRoot :: "jsobj option"
  clock :: nat
  opClock :: nat
  items :: items
  root :: "node option"
  undoStack :: "HistoryItem list"
  redoStack :: "HistoryItem list"
  isHistoryPaused :: bool
  pausedHistory :: HistoryItem
  isBatching :: bool
  batch :: batch_state
  offlineOperations :: "(string \<times> op) list"
  presence_shared :: bool
  trace :: "call list"

text \<open>
  The socket is represented by its \<^verbatim>\<open>readyState\<close>; \<open>None\<close> is \<^verbatim>\<open>null\<close>. The field
  \<^verbatim>\<open>idFactory\<close> is written by \<^verbatim>\<open>authenticationSuccess\<close> only and read nowhere; it is
  left out. \<open>presence_shared\<close> holds while \<^verbatim>\<open>state.buffer.presence.data\<close> and
  \<^verbatim>\<open>state.me\<close> are one object: \<^verbatim>\<open>defaultState\<close> with an initial presence and the open
  handler make them one, and every assignment of a fresh object to either ends it.
\<close>

subsection \<open>The environment\<close>

datatype Authentication = PublicAuth | PrivateAuth | CustomAuth

record env =
  throttleDelay :: int
  date_now :: int
  authentication :: Authentication
  window_defined :: bool
  fetch_polyfill :: bool
  websocket_polyfill :: bool
  CLOSE_WITHOUT_RETRY :: int
  mergeStorageUpdates :: "StorageUpdate option \<Rightarrow> StorageUpdate \<Rightarrow> StorageUpdate"
  node_apply :: "node \<Rightarrow> op \<Rightarrow> bool \<Rightarrow> items \<Rightarrow> ApplyResult \<times> items"
  node_attachChild :: "node \<Rightarrow> op \<Rightarrow> OpSource \<Rightarrow> items \<Rightarrow> ApplyResult \<times> items"
  node_setChildKey ::
    "node \<Rightarrow> string option \<Rightarrow> node \<Rightarrow> OpSource \<Rightarrow> items \<Rightarrow> ApplyResult \<times> items"
  delayFlush :: "int \<Rightarrow> int"
  startHeartbeatInterval :: int
  schedulePongTimeout :: int
  scheduleReconnect :: "int \<Rightarrow> int"

text \<open>
  \<open>fetch_polyfill\<close> says that \<^verbatim>\<open>context.polyfills?.fetch ?? context.fetchPolyfill\<close> is
  not null, \<open>websocket_polyfill\<close> the same for the WebSocket constructor, and
  \<open>window_defined\<close> that \<^verbatim>\<open>typeof window\<close> is not \<^verbatim>\<open>"undefined"\<close>. The node methods
  \<^verbatim>\<open>_apply\<close>, \<^verbatim>\<open>_attachChild\<close> and \<^verbatim>\<open>_setChildKey\<close> take the registry
  \<^verbatim>\<open>state.items\<close> and return it as they leave it. The four timer effects return the
  handle that the machine stores.
\<close>

definition emit :: "call list \<Rightarrow> state \<Rightarrow> state" where
  "emit cs s = s\<lparr>trace := trace s @ cs\<rparr>"

definition nn :: "'a option \<Rightarrow> error + 'a" where
  "nn v = (case v of None \<Rightarrow> Inl AssertionFailed | Some x \<Rightarrow> Inr x)"

definition falsy :: "string option \<Rightarrow> bool" where
  "falsy v = (v = None \<or> v = Some [])"

subsection \<open>History\<close>

text \<open>
  Source lines: \<^verbatim>\<open>canUndo\<close> 1487--1489, \<^verbatim>\<open>canRedo\<close> 1516--1518, \<^verbatim>\<open>onHistoryChange\<close>
  975--979, \<^verbatim>\<open>addToUndoStack\<close> 492--504, \<^verbatim>\<open>pauseHistory\<close> 1560--1563,
  \<^verbatim>\<open>resumeHistory\<close> 1565--1571.
\<close>

definition canUndo :: "state \<Rightarrow> bool" where
  "canUndo s = (length (undoStack s) > 0)"

definition canRedo :: "state \<Rightarrow> bool" where
  "canRedo s = (length (redoStack s) > 0)"

definition onHistoryChange :: "state \<Rightarrow> state" where
  "onHistoryChange s =
     emit (map (\<lambda>l. HistoryListener l (canUndo s) (canRedo s)) (on_history (listeners s))) s"

definition addToUndoStack :: "HistoryItem \<Rightarrow> state \<Rightarrow> state" where
  "addToUndoStack historyItem s =
     (let s1 = (if length (undoStack s) \<ge> 50 then s\<lparr>undoStack := tl (undoStack s)\<rparr> else s)
      in if isHistoryPaused s1
         then s1\<lparr>pausedHistory := historyItem @ pausedHistory s1\<rparr>
         else onHistoryChange (s1\<lparr>undoStack := undoStack s1 @ [historyItem]\<rparr>))"

definition pauseHistory :: "state \<Rightarrow> state" where
  "pauseHistory s = s\<lparr>pausedHistory := [], isHistoryPaused := True\<rparr>"

definition resumeHistory :: "state \<Rightarrow> state" where
  "resumeHistory s =
     (let s1 = s\<lparr>isHistoryPaused := False\<rparr>;
          s2 = (if length (pausedHistory s1) > 0 then addToUndoStack (pausedHistory s1) s1 else s1)
      in s2\<lparr>pausedHistory := []\<rparr>)"

subsection \<open>Notifications\<close>

text \<open>
  Source lines: \<^verbatim>\<open>makeOthers\<close> 162--187, \<^verbatim>\<open>notify\<close> 531--560. \<^verbatim>\<open>Object.values\<close> lists
  the users by ascending connection id; the private flag is stripped from every entry.
  The three arguments of \<open>notify\<close> are the fields \<^verbatim>\<open>storageUpdates\<close>, \<^verbatim>\<open>presence\<close> and
  \<^verbatim>\<open>others\<close> of its argument object.
\<close>

definition makeOthers :: "(nat \<times> user) list \<Rightarrow> public_user list" where
  "makeOthers userMap = map (\<lambda>p. public_user.truncate (snd p)) (sort_key fst userMap)"

definition notify ::
  "(string \<times> StorageUpdate) list \<Rightarrow> bool \<Rightarrow> OthersEvent list \<Rightarrow> state \<Rightarrow> state" where
  "notify storageUpdates presence_changed otherEvents s =
     (let s1 = (if length otherEvents > 0
                then (let s' = s\<lparr>others := makeOthers (users s)\<rparr>
                      in emit (concat (map (\<lambda>ev. map (\<lambda>l. OthersListener l (others s') ev)
                                                      (on_others (listeners s')))
                                           otherEvents)) s')
                else s);
          s2 = (if presence_changed
                then emit (map (\<lambda>l. MyPresenceListener l (me s1)) (on_my_presence (listeners s1))) s1
                else s1)
      in if length storageUpdates > 0
         then emit (map (\<lambda>l. StorageListener l (map snd storageUpdates)) (on_storage (listeners s2))) s2
         else s2)"

subsection \<open>The flush scheduler\<close>

text \<open>
  Source lines: \<^verbatim>\<open>flushDataToMessages\<close> 1312--1343, \<^verbatim>\<open>tryFlushing\<close> 1270--1310,
  \<^verbatim>\<open>dispatch\<close> 1404--1407, \<^verbatim>\<open>storageDispatch\<close> 506--529.
\<close>

definition flushDataToMessages :: "state \<Rightarrow> ClientMsg list" where
  "flushDataToMessages s =
     (case buf_presence (buffer s) of
        None \<Rightarrow> []
      | Some p \<Rightarrow> [if ptype p = Full then UPDATE_PRESENCE (pdata p) (Some (- 1))
                   else UPDATE_PRESENCE (pdata p) None])
     @ messages (buffer s)
     @ (if length (storageOperations (buffer s)) > 0
        then [UPDATE_STORAGE (storageOperations (buffer s))] else [])"

text \<open>
  The \<^verbatim>\<open>forEach\<close> at the head of \<^verbatim>\<open>tryFlushing\<close>: every op is stored under
  \<^verbatim>\<open>nn(op.opId)\<close>; the assertion throws at the first op without an id, after the ops
  before it have been stored.
\<close>

fun record_offline :: "op list \<Rightarrow> (string \<times> op) list \<Rightarrow> error option \<times> (string \<times> op) list" where
  "record_offline [] m = (None, m)"
| "record_offline (x # xs) m =
     (case nn (opId x) of
        Inl e \<Rightarrow> (Some e, m)
      | Inr i \<Rightarrow> record_offline xs (kv_set m i x))"

definition socket_is_open :: "state \<Rightarrow> bool" where
  "socket_is_open s = (case socket s of None \<Rightarrow> False | Some r \<Rightarrow> r = WS_OPEN)"

definition tryFlushing :: "env \<Rightarrow> state \<Rightarrow> error option \<times> state" where
  "tryFlushing e s =
     (case record_offline (storageOperations (buffer s)) (offlineOperations s) of
        (Some err, m) \<Rightarrow> (Some err, s\<lparr>offlineOperations := m\<rparr>)
      | (None, m) \<Rightarrow>
          (let s1 = s\<lparr>offlineOperations := m\<rparr>
           in if \<not> socket_is_open s1
              then (None, s1\<lparr>buffer := (buffer s1)\<lparr>storageOperations := []\<rparr>\<rparr>)
              else
                (let now = date_now e;
                     elapsedTime = now - lastFlushTime s1
                 in if elapsedTime > throttleDelay e
                    then
                      (let msgs = flushDataToMessages s1
                       in if length msgs = 0 then (None, s1)
                          else (None, (emit [Send msgs] s1)
                                  \<lparr>buffer := \<lparr>buf_presence = None, messages = [],
                                              storageOperations = []\<rparr>,
                                   presence_shared := False,
                                   lastFlushTime := now\<rparr>))
                    else
                      (let s2 = (case flush (timeoutHandles s1) of
                                   None \<Rightarrow> s1
                                 | Some h \<Rightarrow> emit [ClearTimeout h] s1);
                           delay = throttleDelay e - (now - lastFlushTime s2)
                       in (None, (emit [DelayFlush delay] s2)
                             \<lparr>timeoutHandles :=
                                (timeoutHandles s2)\<lparr>flush := Some (delayFlush e delay)\<rparr>\<rparr>)))))"

text \<open>Sequencing: the second step runs only when the first did not throw.\<close>

definition and_then ::
  "error option \<times> state \<Rightarrow> (state \<Rightarrow> error option \<times> state) \<Rightarrow> error option \<times> state" where
  "and_then r f = (case r of (None, s) \<Rightarrow> f s | (Some err, s) \<Rightarrow> (Some err, s))"

definition dispatch :: "env \<Rightarrow> op list \<Rightarrow> state \<Rightarrow> error option \<times> state" where
  "dispatch e new_ops s =
     tryFlushing e
       (s\<lparr>buffer := (buffer s)\<lparr>storageOperations := storageOperations (buffer s) @ new_ops\<rparr>\<rparr>)"

text \<open>
  The \<^verbatim>\<open>forEach\<close> of \<^verbatim>\<open>storageDispatch\<close> and of \<^verbatim>\<open>onMessage\<close>: every update is merged
  into the entry of its key.
\<close>

definition merge_updates ::
  "env \<Rightarrow> (string \<times> StorageUpdate) list \<Rightarrow> (string \<times> StorageUpdate) list
     \<Rightarrow> (string \<times> StorageUpdate) list" where
  "merge_updates e new_updates acc =
     fold (\<lambda>p m. kv_set m (fst p) (mergeStorageUpdates e (kv_get m (fst p)) (snd p)))
       new_updates acc"

definition storageDispatch ::
  "env \<Rightarrow> op list \<Rightarrow> op list \<Rightarrow> (string \<times> StorageUpdate) list \<Rightarrow> state
     \<Rightarrow> error option \<times> state" where
  "storageDispatch e new_ops reverse storageUpdates s =
     (if isBatching s
      then
        (let b = batch s;
             b1 = b\<lparr>ops := ops b @ new_ops\<rparr>;
             b2 = b1\<lparr>updates := (updates b1)
                       \<lparr>b_storageUpdates :=
                          merge_updates e storageUpdates (b_storageUpdates (updates b1))\<rparr>\<rparr>;
             b3 = b2\<lparr>reverseOps := reverseOps b2 @ map OpEntry reverse\<rparr>
         in (None, s\<lparr>batch := b3\<rparr>))
      else
        (let s1 = addToUndoStack (map OpEntry reverse) s;
             s2 = s1\<lparr>redoStack := []\<rparr>
         in and_then (dispatch e new_ops s2)
              (\<lambda>s3. (None, notify storageUpdates False [] s3))))"

subsection \<open>The apply loop and the op engine\<close>

text \<open>
  Source lines: \<^verbatim>\<open>getConnectionId\<close> 562--575, \<^verbatim>\<open>generateOpId\<close> 581--583, \<^verbatim>\<open>applyOp\<close>
  683--724, \<^verbatim>\<open>apply\<close> 585--681 (here \<open>apply_item\<close>, with the body of its loop in
  \<open>apply_presence\<close> and \<open>apply_op\<close>).
\<close>

definition getConnectionId :: "state \<Rightarrow> error + nat" where
  "getConnectionId s =
     (case connection s of
        Open i u n \<Rightarrow> Inr i
      | Connecting i u n \<Rightarrow> Inr i
      | _ \<Rightarrow> (case lastConnectionId s of
                Some i \<Rightarrow> Inr i
              | None \<Rightarrow> Inl ConnectionNeverOpen))"

definition generateOpId :: "state \<Rightarrow> (error + string) \<times> state" where
  "generateOpId s =
     (case getConnectionId s of
        Inl err \<Rightarrow> (Inl err, s)
      | Inr i \<Rightarrow> (Inr (string_of_nat i @ '':'' @ string_of_nat (opClock s)),
                  s\<lparr>opClock := opClock s + 1\<rparr>))"

definition applyOp :: "env \<Rightarrow> op \<Rightarrow> OpSource \<Rightarrow> state \<Rightarrow> ApplyResult \<times> state" where
  "applyOp e x source s =
     (if op_type x = DELETE_OBJECT_KEY \<or> op_type x = UPDATE_OBJECT \<or> op_type x = DELETE_CRDT
      then
        (case kv_get (items s) (op_id x) of
           None \<Rightarrow> (NotModified, s)
         | Some item \<Rightarrow>
             (case node_apply e item x (source = UNDOREDO_RECONNECT) (items s) of
                (r, its) \<Rightarrow> (r, s\<lparr>items := its\<rparr>)))
      else if op_type x = SET_PARENT_KEY
      then
        (case kv_get (items s) (op_id x) of
           None \<Rightarrow> (NotModified, s)
         | Some item \<Rightarrow>
             (case node_parent item of
                Some p \<Rightarrow>
                  (if isLiveList p
                   then (case node_setChildKey e p (parentKey x) item source (items s) of
                           (r, its) \<Rightarrow> (r, s\<lparr>items := its\<rparr>))
                   else (NotModified, s))
              | None \<Rightarrow> (NotModified, s)))
      else
        (case parentId x of
           None \<Rightarrow> (NotModified, s)
         | Some pid \<Rightarrow>
             (case kv_get (items s) pid of
                None \<Rightarrow> (NotModified, s)
              | Some parent \<Rightarrow>
                  (case node_attachChild e parent x source (items s) of
                     (r, its) \<Rightarrow> (r, s\<lparr>items := its\<rparr>)))))"

text \<open>
  The local variables of \<^verbatim>\<open>apply\<close>: \<^verbatim>\<open>result.reverse\<close>, \<^verbatim>\<open>result.updates\<close> and
  \<^verbatim>\<open>createdNodeIds\<close>. The loop assigns \<^verbatim>\<open>op.opId\<close> in place; \<open>applied\<close> holds the
  entries of the item as the loop leaves them.
\<close>

record apply_result =
  reverse :: HistoryItem
  storageUpdates :: "(string \<times> StorageUpdate) list"
  presence_changed :: bool
  createdNodeIds :: "string list"
  applied :: HistoryItem

definition apply_presence :: "jsobj \<Rightarrow> apply_result \<Rightarrow> state \<Rightarrow> apply_result \<times> state" where
  "apply_presence d result s =
     (let reverse_data = fold (\<lambda>k r. kv_set r k (obj_get (me s) k)) (map fst d) [];
          s1 = s\<lparr>me := spread (me s) d, presence_shared := False\<rparr>;
          s2 = (case buf_presence (buffer s1) of
                  None \<Rightarrow> s1\<lparr>buffer := (buffer s1)
                                \<lparr>buf_presence := Some \<lparr>ptype = Partial, pdata = d\<rparr>\<rparr>\<rparr>
                | Some p \<Rightarrow> s1\<lparr>buffer := (buffer s1)
                                \<lparr>buf_presence :=
                                   Some (p\<lparr>pdata := fold (\<lambda>kv ob. kv_set ob (fst kv) (snd kv)) d
                                                       (pdata p)\<rparr>)\<rparr>\<rparr>)
      in (result\<lparr>reverse := PresenceEntry reverse_data # reverse result,
                 presence_changed := True,
                 applied := applied result @ [PresenceEntry d]\<rparr>, s2))"

text \<open>\<^verbatim>\<open>if (!op.opId) op.opId = generateOpId()\<close>\<close>

definition assign_opId :: "op \<Rightarrow> state \<Rightarrow> (error + op) \<times> state" where
  "assign_opId x s =
     (if falsy (opId x)
      then (case generateOpId s of
              (Inl err, s') \<Rightarrow> (Inl err, s')
            | (Inr i, s') \<Rightarrow> (Inr (x\<lparr>opId := Some i\<rparr>), s'))
      else (Inr x, s))"

text \<open>The source of an op: local, or remote and then an acknowledgement or not.\<close>

definition op_source :: "bool \<Rightarrow> op \<Rightarrow> state \<Rightarrow> (error + OpSource) \<times> state" where
  "op_source isLocal x s =
     (if isLocal then (Inr UNDOREDO_RECONNECT, s)
      else (case nn (opId x) of
              Inl err \<Rightarrow> (Inl err, s)
            | Inr i \<Rightarrow>
                (case kv_delete (offlineOperations s) i of
                   (deleted, m) \<Rightarrow>
                     (Inr (if deleted then ACK else REMOTE), s\<lparr>offlineOperations := m\<rparr>))))"

text \<open>\<^verbatim>\<open>parentId\<close>: the id of the parent of the modified node, or \<^verbatim>\<open>undefined\<close>.\<close>

definition parent_id_of :: "StorageUpdate \<Rightarrow> error + string option" where
  "parent_id_of m =
     (case node_parent (upd_node m) of
        Some p \<Rightarrow> (case nn (node_id p) of Inl err \<Rightarrow> Inl err | Inr i \<Rightarrow> Inr (Some i))
      | None \<Rightarrow> Inr None)"

text \<open>\<^verbatim>\<open>!parentId || !createdNodeIds.has(parentId)\<close>\<close>

definition update_wanted :: "string option \<Rightarrow> string list \<Rightarrow> bool" where
  "update_wanted pid created =
     (falsy pid \<or> (case pid of None \<Rightarrow> True | Some p \<Rightarrow> p \<notin> set created))"

definition is_create :: "op \<Rightarrow> bool" where
  "is_create x =
     (op_type x = CREATE_LIST \<or> op_type x = CREATE_MAP \<or> op_type x = CREATE_OBJECT)"

text \<open>The body of \<^verbatim>\<open>if (applyOpResult.modified) { ... }\<close>.\<close>

definition record_modified ::
  "env \<Rightarrow> op \<Rightarrow> StorageUpdate \<Rightarrow> op list \<Rightarrow> apply_result \<Rightarrow> error + apply_result" where
  "record_modified e x m engine_reverse result =
     (case parent_id_of m of
        Inl err \<Rightarrow> Inl err
      | Inr pid \<Rightarrow>
          (case (if update_wanted pid (createdNodeIds result)
                 then (case nn (node_id (upd_node m)) of
                         Inl err \<Rightarrow> Inl err
                       | Inr nid \<Rightarrow>
                           Inr (result
                             \<lparr>storageUpdates :=
                                kv_set (storageUpdates result) nid
                                  (mergeStorageUpdates e (kv_get (storageUpdates result) nid) m),
                              reverse := map OpEntry engine_reverse @ reverse result\<rparr>))
                 else Inr result) of
             Inl err \<Rightarrow> Inl err
           | Inr result1 \<Rightarrow>
               (if is_create x
                then (case nn (node_id (upd_node m)) of
                        Inl err \<Rightarrow> Inl err
                      | Inr nid \<Rightarrow>
                          Inr (result1\<lparr>createdNodeIds := nid # createdNodeIds result1\<rparr>))
                else Inr result1)))"

definition apply_op :: "env \<Rightarrow> bool \<Rightarrow> op \<Rightarrow> apply_result \<Rightarrow> state \<Rightarrow> (error + apply_result) \<times> state" where
  "apply_op e isLocal x result s =
     (case assign_opId x s of
        (Inl err, s1) \<Rightarrow> (Inl err, s1)
      | (Inr x1, s1) \<Rightarrow>
          (case op_source isLocal x1 s1 of
             (Inl err, s2) \<Rightarrow> (Inl err, s2)
           | (Inr source, s2) \<Rightarrow>
               (let result1 = result\<lparr>applied := applied result @ [OpEntry x1]\<rparr>
                in case applyOp e x1 source s2 of
                     (NotModified, s3) \<Rightarrow> (Inr result1, s3)
                   | (Modified m engine_reverse, s3) \<Rightarrow>
                       (record_modified e x1 m engine_reverse result1, s3))))"

fun apply_loop ::
  "env \<Rightarrow> bool \<Rightarrow> HistoryItem \<Rightarrow> apply_result \<Rightarrow> state \<Rightarrow> (error + apply_result) \<times> state" where
  "apply_loop e isLocal [] result s = (Inr result, s)"
| "apply_loop e isLocal (x # xs) result s =
     (case (case x of
              PresenceEntry d \<Rightarrow> (case apply_presence d result s of (r, s') \<Rightarrow> (Inr r, s'))
            | OpEntry o1 \<Rightarrow> apply_op e isLocal o1 result s) of
        (Inl err, s') \<Rightarrow> (Inl err, s')
      | (Inr result', s') \<Rightarrow> apply_loop e isLocal xs result' s')"

text \<open>\<^verbatim>\<open>apply(item, isLocal)\<close>\<close>

definition apply_item :: "env \<Rightarrow> HistoryItem \<Rightarrow> bool \<Rightarrow> state \<Rightarrow> (error + apply_result) \<times> state" where
  "apply_item e item isLocal s =
     apply_loop e isLocal item
       \<lparr>reverse = [], storageUpdates = [], presence_changed = False,
        createdNodeIds = [], applied = []\<rparr> s"

subsection \<open>Presence updates, undo, redo and batches\<close>

text \<open>
  Source lines: \<^verbatim>\<open>updatePresence\<close> 819--856, \<^verbatim>\<open>undo\<close> 1462--1485, \<^verbatim>\<open>redo\<close>
  1491--1514, \<^verbatim>\<open>batch\<close> 1520--1558. The argument \<open>options\<close> of \<open>updatePresence\<close> is
  \<open>None\<close> when the caller passes none and \<open>Some b\<close> for \<^verbatim>\<open>{ addToHistory: b }\<close>; an
  override whose value is \<^verbatim>\<open>undefined\<close> is an entry with the value \<open>JUndefined\<close>. The
  loop of \<open>updatePresence\<close> writes a key into the buffer and then reads the same key
  from \<^verbatim>\<open>state.me\<close>: while the two are one object the value read is the value just
  written, and \<^verbatim>\<open>state.me\<close> has the writes when it is spread into the new object.
\<close>

definition updatePresence :: "env \<Rightarrow> jsobj \<Rightarrow> bool option \<Rightarrow> state \<Rightarrow> error option \<times> state" where
  "updatePresence e overrides options s =
     (let s1 = (if buf_presence (buffer s) = None
                then s\<lparr>buffer := (buffer s)\<lparr>buf_presence := Some \<lparr>ptype = Partial, pdata = []\<rparr>\<rparr>,
                       presence_shared := False\<rparr>
                else s);
          given = filter (\<lambda>kv. snd kv \<noteq> JUndefined) overrides;
          s2 = s1\<lparr>buffer := (buffer s1)
                 \<lparr>buf_presence :=
                    map_option
                      (\<lambda>p. p\<lparr>pdata := fold (\<lambda>kv ob. kv_set ob (fst kv) (snd kv)) given (pdata p)\<rparr>)
                      (buf_presence (buffer s1))\<rparr>\<rparr>;
          oldValues = fold (\<lambda>kv ob. kv_set ob (fst kv)
                                       (if presence_shared s1 then snd kv
                                        else obj_get (me s1) (fst kv))) given [];
          me_after_loop = (if presence_shared s1
                           then fold (\<lambda>kv ob. kv_set ob (fst kv) (snd kv)) given (me s1)
                           else me s1);
          s3 = s2\<lparr>me := spread me_after_loop overrides, presence_shared := False\<rparr>
      in if isBatching s3
         then
           (let b = batch s3;
                b1 = (if options = Some True
                      then b\<lparr>reverseOps := reverseOps b @ [PresenceEntry oldValues]\<rparr> else b);
                b2 = b1\<lparr>updates := (updates b1)\<lparr>b_presence := True\<rparr>\<rparr>
            in (None, s3\<lparr>batch := b2\<rparr>))
         else
           and_then (tryFlushing e s3)
             (\<lambda>s4. let s5 = (if options = Some True
                             then addToUndoStack [PresenceEntry oldValues] s4 else s4)
                   in (None, notify [] True [] s5)))"

text \<open>The loop of \<^verbatim>\<open>undo\<close> and \<^verbatim>\<open>redo\<close> that buffers the ops of the history item.\<close>

definition buffer_ops :: "HistoryItem \<Rightarrow> state \<Rightarrow> state" where
  "buffer_ops item s =
     s\<lparr>buffer := (buffer s)
         \<lparr>storageOperations :=
            storageOperations (buffer s)
            @ concat (map (\<lambda>x. case x of OpEntry o1 \<Rightarrow> [o1] | PresenceEntry d \<Rightarrow> []) item)\<rparr>\<rparr>"

definition undo :: "env \<Rightarrow> state \<Rightarrow> error option \<times> state" where
  "undo e s =
     (if isBatching s then (Some UndoDuringBatch, s)
      else if undoStack s = [] then (None, s)
      else
        (let historyItem = last (undoStack s);
             s1 = s\<lparr>undoStack := butlast (undoStack s)\<rparr>;
             s2 = s1\<lparr>isHistoryPaused := False\<rparr>
         in case apply_item e historyItem True s2 of
              (Inl err, s3) \<Rightarrow> (Some err, s3)
            | (Inr result, s3) \<Rightarrow>
                (let s4 = notify (storageUpdates result) (presence_changed result) [] s3;
                     s5 = s4\<lparr>redoStack := redoStack s4 @ [reverse result]\<rparr>;
                     s6 = onHistoryChange s5;
                     s7 = buffer_ops (applied result) s6
                 in tryFlushing e s7)))"

definition redo :: "env \<Rightarrow> state \<Rightarrow> error option \<times> state" where
  "redo e s =
     (if isBatching s then (Some RedoDuringBatch, s)
      else if redoStack s = [] then (None, s)
      else
        (let historyItem = last (redoStack s);
             s1 = s\<lparr>redoStack := butlast (redoStack s)\<rparr>;
             s2 = s1\<lparr>isHistoryPaused := False\<rparr>
         in case apply_item e historyItem True s2 of
              (Inl err, s3) \<Rightarrow> (Some err, s3)
            | (Inr result, s3) \<Rightarrow>
                (let s4 = notify (storageUpdates result) (presence_changed result) [] s3;
                     s5 = s4\<lparr>undoStack := undoStack s4 @ [reverse result]\<rparr>;
                     s6 = onHistoryChange s5;
                     s7 = buffer_ops (applied result) s6
                 in tryFlushing e s7)))"

definition empty_batch :: batch_state where
  "empty_batch =
     \<lparr>ops = [], reverseOps = [], updates = \<lparr>b_presence = False, b_storageUpdates = []\<rparr>\<rparr>"

text \<open>The \<^verbatim>\<open>finally\<close> block of \<^verbatim>\<open>batch\<close>.\<close>

definition batch_finally :: "env \<Rightarrow> state \<Rightarrow> error option \<times> state" where
  "batch_finally e s =
     (let s1 = s\<lparr>isBatching := False\<rparr>;
          s2 = (if length (reverseOps (batch s1)) > 0
                then addToUndoStack (reverseOps (batch s1)) s1 else s1);
          s3 = (if length (ops (batch s2)) > 0 then s2\<lparr>redoStack := []\<rparr> else s2)
      in and_then
           (if length (ops (batch s3)) > 0 then dispatch e (ops (batch s3)) s3 else (None, s3))
           (\<lambda>s4. let s5 = notify (b_storageUpdates (updates (batch s4)))
                             (b_presence (updates (batch s4))) [] s4;
                     s6 = s5\<lparr>batch := empty_batch\<rparr>
                 in tryFlushing e s6))"

text \<open>
  \<^verbatim>\<open>batch(callback)\<close>; the name \<open>batch\<close> is taken by the field of the state. The
  callback is any code that works on the state and may throw. An exception of the
  \<^verbatim>\<open>finally\<close> block replaces the one of the callback.
\<close>

definition run_batch ::
  "env \<Rightarrow> (state \<Rightarrow> error option \<times> state) \<Rightarrow> state \<Rightarrow> error option \<times> state" where
  "run_batch e callback s =
     (if isBatching s then (Some BatchDuringBatch, s)
      else
        (case callback (s\<lparr>isBatching := True\<rparr>) of
           (thrown, s1) \<Rightarrow>
             (case batch_finally e s1 of
                (Some err, s2) \<Rightarrow> (Some err, s2)
              | (None, s2) \<Rightarrow> (thrown, s2))))"

subsection \<open>The connection\<close>

text \<open>
  Source lines: the two backoff tables 150--151, \<^verbatim>\<open>updateConnection\<close> 1156--1161,
  \<^verbatim>\<open>getRetryDelay\<close> 1163--1176, \<^verbatim>\<open>onClose\<close> 1108--1154, \<^verbatim>\<open>onOpen\<close> 1180--1207,
  \<^verbatim>\<open>connect\<close> 798--817, \<^verbatim>\<open>prepareCreateWebSocket\<close> 1802--1823,
  \<^verbatim>\<open>prepareAuthEndpoint\<close> 1825--1872.
\<close>

definition BACKOFF_RETRY_DELAYS :: "int list" where
  "BACKOFF_RETRY_DELAYS = [250, 500, 1000, 2000, 4000, 8000, 10000]"

definition BACKOFF_RETRY_DELAYS_SLOW :: "int list" where
  "BACKOFF_RETRY_DELAYS_SLOW = [2000, 30000, 60000, 300000]"

definition updateConnection :: "Connection \<Rightarrow> state \<Rightarrow> state" where
  "updateConnection c s =
     (let s1 = emit [SetConnection c] (s\<lparr>connection := c\<rparr>)
      in emit (map (\<lambda>l. ConnectionListener l (connection_state c)) (on_connection (listeners s1))) s1)"

definition getRetryDelay :: "bool \<Rightarrow> state \<Rightarrow> int" where
  "getRetryDelay slow s =
     (if slow
      then BACKOFF_RETRY_DELAYS_SLOW !
             (if numberOfRetry s < length BACKOFF_RETRY_DELAYS_SLOW
              then numberOfRetry s else length BACKOFF_RETRY_DELAYS_SLOW - 1)
      else BACKOFF_RETRY_DELAYS !
             (if numberOfRetry s < length BACKOFF_RETRY_DELAYS
              then numberOfRetry s else length BACKOFF_RETRY_DELAYS - 1))"

record CloseEvent =
  code :: int
  wasClean :: bool
  reason :: string

definition onClose :: "env \<Rightarrow> CloseEvent \<Rightarrow> state \<Rightarrow> state" where
  "onClose e event s =
     (let s1 = s\<lparr>socket := None\<rparr>;
          s2 = emit [ClearTimeout (pongTimeout (timeoutHandles s1)),
                     ClearInterval (heartbeat (intervalHandles s1))] s1;
          s3 = (case flush (timeoutHandles s2) of
                  None \<Rightarrow> s2
                | Some h \<Rightarrow> if h \<noteq> 0 then emit [ClearTimeout h] s2 else s2);
          s4 = emit [ClearTimeout (reconnect (timeoutHandles s3))] s3;
          s5 = s4\<lparr>users := []\<rparr>;
          s6 = notify [] False [Reset] s5
      in if code event \<ge> 4000 \<and> code event \<le> 4100
         then
           (let s7 = updateConnection Failed s6;
                s8 = emit (map (\<lambda>l. ErrorListener l (reason event) (code event))
                             (on_error (listeners s7))) s7;
                delay = getRetryDelay True s8;
                s9 = s8\<lparr>numberOfRetry := numberOfRetry s8 + 1\<rparr>;
                s10 = updateConnection Unavailable s9
            in (emit [ScheduleReconnect delay] s10)
                 \<lparr>timeoutHandles := (timeoutHandles s10)\<lparr>reconnect := scheduleReconnect e delay\<rparr>\<rparr>)
         else if code event = CLOSE_WITHOUT_RETRY e
         then updateConnection Closed s6
         else
           (let delay = getRetryDelay False s6;
                s7 = s6\<lparr>numberOfRetry := numberOfRetry s6 + 1\<rparr>;
                s8 = updateConnection Unavailable s7
            in (emit [ScheduleReconnect delay] s8)
                 \<lparr>timeoutHandles := (timeoutHandles s8)\<lparr>reconnect := scheduleReconnect e delay\<rparr>\<rparr>))"

text \<open>
  \<^verbatim>\<open>state.lastConnectionId !== undefined\<close>: the field has the type \<^verbatim>\<open>number | null\<close>
  and starts as \<^verbatim>\<open>null\<close> (here \<open>None\<close>), and neither \<^verbatim>\<open>null\<close> nor a number is
  \<^verbatim>\<open>undefined\<close>.
\<close>

definition not_undefined :: "nat option \<Rightarrow> bool" where
  "not_undefined v = (case v of None \<Rightarrow> True | Some i \<Rightarrow> True)"

definition onOpen :: "env \<Rightarrow> state \<Rightarrow> error option \<times> state" where
  "onOpen e s =
     (let s1 = emit [ClearInterval (heartbeat (intervalHandles s))] s;
          s2 = (emit [StartHeartbeatInterval] s1)
                 \<lparr>intervalHandles := (intervalHandles s1)\<lparr>heartbeat := startHeartbeatInterval e\<rparr>\<rparr>
      in case connection s2 of
           Connecting i u n \<Rightarrow>
             (let s3 = updateConnection (Open i u n) s2;
                  s4 = s3\<lparr>numberOfRetry := 0\<rparr>
              in and_then
                   (if not_undefined (lastConnectionId s4)
                    then tryFlushing e
                           (s4\<lparr>buffer := (buffer s4)
                                 \<lparr>buf_presence := Some \<lparr>ptype = Full, pdata = me s4\<rparr>\<rparr>,
                               presence_shared := True\<rparr>)
                    else (None, s4))
                   (\<lambda>s5. let s6 = s5\<lparr>lastConnectionId := Some i\<rparr>;
                             s7 = (if root s6 \<noteq> None
                                   then s6\<lparr>buffer := (buffer s6)
                                            \<lparr>messages := messages (buffer s6) @ [FETCH_STORAGE]\<rparr>\<rparr>
                                   else s6)
                         in tryFlushing e s7))
         | _ \<Rightarrow> (None, s2))"

text \<open>
  \<^verbatim>\<open>prepareAuthEndpoint\<close> and \<^verbatim>\<open>prepareCreateWebSocket\<close> build two closures, or throw
  when the environment has neither a window nor the polyfill they need. The type
  \<^verbatim>\<open>Authentication\<close> has the three variants below, so the final \<^verbatim>\<open>throw\<close> of
  \<^verbatim>\<open>prepareAuthEndpoint\<close> is not reached.
\<close>

definition prepareAuthEndpoint :: "env \<Rightarrow> error + unit" where
  "prepareAuthEndpoint e =
     (case authentication e of
        PublicAuth \<Rightarrow>
          (if \<not> window_defined e \<and> \<not> fetch_polyfill e then Inl NoFetchPolyfill else Inr ())
      | PrivateAuth \<Rightarrow>
          (if \<not> window_defined e \<and> \<not> fetch_polyfill e then Inl NoFetchPolyfill else Inr ())
      | CustomAuth \<Rightarrow> Inr ())"

definition prepareCreateWebSocket :: "env \<Rightarrow> error + unit" where
  "prepareCreateWebSocket e =
     (if \<not> window_defined e \<and> \<not> websocket_polyfill e then Inl NoWebSocketPolyfill else Inr ())"

datatype connect_result = ReturnsNull | ReturnsUndefined

definition connect :: "env \<Rightarrow> state \<Rightarrow> (error + connect_result) \<times> state" where
  "connect e s =
     (if connection_state (connection s) \<noteq> ''closed''
         \<and> connection_state (connection s) \<noteq> ''unavailable''
      then (Inr ReturnsNull, s)
      else
        (case prepareAuthEndpoint e of
           Inl err \<Rightarrow> (Inl err, s)
         | Inr auth \<Rightarrow>
             (case prepareCreateWebSocket e of
                Inl err \<Rightarrow> (Inl err, s)
              | Inr createWebSocket \<Rightarrow>
                  (Inr ReturnsUndefined,
                   emit [Authenticate] (updateConnection Authenticating s)))))"

subsection \<open>Presence of the other users\<close>

text \<open>Source lines: \<^verbatim>\<open>onUpdatePresenceMessage\<close> 891--931.\<close>

definition onUpdatePresenceMessage ::
  "UpdatePresenceServerMsg \<Rightarrow> state \<Rightarrow> OthersEvent option \<times> state" where
  "onUpdatePresenceMessage message s =
     (let usr = kv_get (users s) (actor message)
      in if targetActor message = None
            \<and> (case usr of None \<Rightarrow> False | Some u \<Rightarrow> \<not> hasReceivedInitialPresence u)
         then (None, s)
         else
           (let new_user =
                  (case usr of
                     None \<Rightarrow>
                       \<lparr>connectionId = actor message, user_id = None, info = None,
                        presence = Some (msg_data message),
                        hasReceivedInitialPresence = True\<rparr>
                   | Some u \<Rightarrow>
                       \<lparr>connectionId = actor message, user_id = user_id u, info = info u,
                        presence = Some (spread (case presence u of None \<Rightarrow> [] | Some p \<Rightarrow> p)
                                           (msg_data message)),
                        hasReceivedInitialPresence = True\<rparr>);
                s1 = s\<lparr>users := kv_set (users s) (actor message) new_user\<rparr>
            in (Some (Update (msg_data message) new_user), s1)))"

subsection \<open>The initial state\<close>

text \<open>Source lines: \<^verbatim>\<open>defaultState\<close> 1636--1707.\<close>

definition defaultState :: "jsobj option \<Rightarrow> jsobj option \<Rightarrow> state" where
  "defaultState initialPresence initialStorage =
     \<lparr>connection = Closed,
      token = None,
      lastConnectionId = None,
      socket = None,
      lastFlushTime = 0,
      buffer = \<lparr>buf_presence =
                  Some \<lparr>ptype = Full,
                        pdata = (case initialPresence of None \<Rightarrow> [] | Some p \<Rightarrow> p)\<rparr>,
                messages = [], storageOperations = []\<rparr>,
      timeoutHandles = \<lparr>flush = None, reconnect = 0, pongTimeout = 0\<rparr>,
      intervalHandles = \<lparr>heartbeat = 0\<rparr>,
      listeners = \<lparr>on_event = [], on_others = [], on_my_presence = [], on_error = [],
                   on_connection = [], on_storage = [], on_history = []\<rparr>,
      me = (case initialPresence of None \<Rightarrow> [] | Some p \<Rightarrow> p),
      others = makeOthers [],
      users = [],
      numberOfRetry = 0,
      defaultStorageRoot = initialStorage,
      clock = 0,
      opClock = 0,
      items = [],
      root = None,
      undoStack = [],
      redoStack = [],
      isHistoryPaused = False,
      pausedHistory = [],
      isBatching = False,
      batch = empty_batch,
      offlineOperations = [],
      presence_shared = (initialPresence \<noteq> None),
      trace = []\<rparr>"

section \<open>Example environments and runs\<close>

text \<open>
  Node methods for the examples, in the manner of a live object. \<^verbatim>\<open>_attachChild\<close>
  registers the child under its id and reports the parent (the node whose key was set)
  as the modified node; its reverse is the op that deletes the key of the parent.
  \<^verbatim>\<open>_apply\<close> with an \<^verbatim>\<open>UPDATE_OBJECT\<close> spreads the data of the op over the content of
  the node and reports the node itself; its reverse is the op that writes the old
  values back.
\<close>

definition object_attachChild ::
  "node \<Rightarrow> op \<Rightarrow> OpSource \<Rightarrow> items \<Rightarrow> ApplyResult \<times> items" where
  "object_attachChild parent x source its =
     (let child = Node (Some (op_id x)) (Some parent) False (op_data x)
      in (Modified \<lparr>upd_node = parent, upd_change = JStr ''update''\<rparr>
            [\<lparr>op_type = DELETE_OBJECT_KEY, opId = None,
              op_id = (case node_id parent of None \<Rightarrow> [] | Some i \<Rightarrow> i),
              parentId = None, parentKey = None, op_key = parentKey x,
              op_data = JUndefined\<rparr>],
          kv_set its (op_id x) child))"

definition object_apply :: "node \<Rightarrow> op \<Rightarrow> bool \<Rightarrow> items \<Rightarrow> ApplyResult \<times> items" where
  "object_apply n x isLocal its =
     (case (op_type x, node_content n, op_data x) of
        (UPDATE_OBJECT, JObj old, JObj new) \<Rightarrow>
          (let n' = Node (node_id n) (node_parent n) (isLiveList n) (JObj (spread old new))
           in (Modified \<lparr>upd_node = n', upd_change = JStr ''update''\<rparr>
                 [\<lparr>op_type = UPDATE_OBJECT, opId = None, op_id = op_id x,
                   parentId = None, parentKey = None, op_key = None,
                   op_data = JObj (map (\<lambda>kv. (fst kv, obj_get old (fst kv))) new)\<rparr>],
               kv_set its (op_id x) n'))
      | _ \<Rightarrow> (NotModified, its))"

text \<open>A browser: a window, no polyfills, a throttle of 100 ms, the clock at 1000 ms.\<close>

definition browser_env :: env where
  "browser_env =
     \<lparr>throttleDelay = 100, date_now = 1000, authentication = PublicAuth,
      window_defined = True, fetch_polyfill = False, websocket_polyfill = False,
      CLOSE_WITHOUT_RETRY = 4999,
      mergeStorageUpdates = (\<lambda>old new. new),
      node_apply = object_apply,
      node_attachChild = object_attachChild,
      node_setChildKey = (\<lambda>p k n src its. (NotModified, its)),
      delayFlush = (\<lambda>d. 1), startHeartbeatInterval = 2, schedulePongTimeout = 3,
      scheduleReconnect = (\<lambda>d. 4)\<rparr>"

text \<open>\<^verbatim>\<open>room.updatePresence({ x: v }, { addToHistory: true })\<close>\<close>

definition set_x :: "int \<Rightarrow> state \<Rightarrow> state" where
  "set_x v s = snd (updatePresence browser_env [(''x'', JNum v)] (Some True) s)"

text \<open>
  Fifty presence updates with history, one undo, one more presence update with history,
  one redo; all on a fresh machine that never connected.
\<close>

definition overflow_run :: state where
  "overflow_run =
     snd (redo browser_env
       (set_x 2 (snd (undo browser_env ((set_x 1 ^^ 50) (defaultState None None))))))"

text \<open>A machine whose history is paused, with one entry on each side.\<close>

definition paused_state :: state where
  "paused_state =
     (defaultState None None)
       \<lparr>undoStack := [[PresenceEntry [(''x'', JNum 0)]]],
        redoStack := [[PresenceEntry [(''x'', JNum 5)]]],
        isHistoryPaused := True,
        pausedHistory := [PresenceEntry [(''x'', JNum 1)]]\<rparr>"

text \<open>A server-side runtime: no window and no polyfill.\<close>

definition node_env :: env where
  "node_env = browser_env\<lparr>window_defined := False\<rparr>"

text \<open>
  The first connection of a machine whose initial presence is \<^verbatim>\<open>{ x: 1 }\<close>, at the
  moment the \<^verbatim>\<open>open\<close> event of its first socket arrives: \<^verbatim>\<open>authenticationSuccess\<close> has
  set the connection to \<^verbatim>\<open>connecting\<close> with actor 7, and \<^verbatim>\<open>lastConnectionId\<close> is
  still \<^verbatim>\<open>null\<close>.
\<close>

definition fresh_open_state :: state where
  "fresh_open_state =
     (defaultState (Some [(''x'', JNum 1)]) None)
       \<lparr>connection := Connecting 7 None None, socket := Some WS_OPEN\<rparr>"

text \<open>
  The same, for a socket that was \<^verbatim>\<open>OPEN\<close> before its \<^verbatim>\<open>open\<close> event was handled, so
  that the initial presence has been flushed already, at time 500.
\<close>

definition first_open_state :: state where
  "first_open_state =
     fresh_open_state
       \<lparr>buffer := \<lparr>buf_presence = None, messages = [], storageOperations = []\<rparr>,
        presence_shared := False,
        lastFlushTime := 500\<rparr>"

text \<open>
  A storage tree with a root and one object \<^verbatim>\<open>9:1\<close> under it, and three ops: one creates
  an object under the root, one creates an object under that object, one updates
  \<^verbatim>\<open>9:1\<close>.
\<close>

definition root_node :: node where
  "root_node = Node (Some ''0:0'') None False (JObj [])"

definition node_c :: node where
  "node_c = Node (Some ''9:1'') (Some root_node) False (JObj [(''v'', JNum 1)])"

definition node_a :: node where
  "node_a = Node (Some ''2:1'') (Some root_node) False (JObj [])"

definition node_b :: node where
  "node_b = Node (Some ''2:2'') (Some node_a) False (JObj [])"

definition tree_state :: state where
  "tree_state =
     (defaultState None None)
       \<lparr>items := [(''0:0'', root_node), (''9:1'', node_c)], root := Some root_node\<rparr>"

definition create_a :: op where
  "create_a = \<lparr>op_type = CREATE_OBJECT, opId = Some ''2:0'', op_id = ''2:1'',
               parentId = Some ''0:0'', parentKey = Some ''a'', op_key = None,
               op_data = JObj []\<rparr>"

definition create_b :: op where
  "create_b = \<lparr>op_type = CREATE_OBJECT, opId = Some ''2:1'', op_id = ''2:2'',
               parentId = Some ''2:1'', parentKey = Some ''b'', op_key = None,
               op_data = JObj []\<rparr>"

definition update_c :: op where
  "update_c = \<lparr>op_type = UPDATE_OBJECT, opId = Some ''2:2'', op_id = ''9:1'',
               parentId = None, parentKey = None, op_key = None,
               op_data = JObj [(''v'', JNum 2)]\<rparr>"

definition delete_op :: "string \<Rightarrow> op" where
  "delete_op i = \<lparr>op_type = DELETE_CRDT, opId = None, op_id = i, parentId = None,
                  parentKey = None, op_key = None, op_data = JUndefined\<rparr>"

text \<open>The reverse ops that the node methods return for the three ops.\<close>

definition delete_key :: "string \<Rightarrow> string \<Rightarrow> op" where
  "delete_key i k = \<lparr>op_type = DELETE_OBJECT_KEY, opId = None, op_id = i, parentId = None,
                     parentKey = None, op_key = Some k, op_data = JUndefined\<rparr>"

definition restore_c :: op where
  "restore_c = \<lparr>op_type = UPDATE_OBJECT, opId = None, op_id = ''9:1'', parentId = None,
                parentKey = None, op_key = None, op_data = JObj [(''v'', JNum 1)]\<rparr>"

text \<open>The state and the local variables of \<^verbatim>\<open>apply\<close> after \<open>create_a\<close>.\<close>

definition state_after_a :: state where
  "state_after_a =
     tree_state\<lparr>items := [(''0:0'', root_node), (''9:1'', node_c), (''2:1'', node_a)]\<rparr>"

definition result_after_a :: apply_result where
  "result_after_a =
     \<lparr>reverse = [OpEntry (delete_key ''0:0'' ''a'')],
      storageUpdates = [(''0:0'', \<lparr>upd_node = root_node, upd_change = JStr ''update''\<rparr>)],
      presence_changed = False, createdNodeIds = [''0:0''], applied = [OpEntry create_a]\<rparr>"

definition empty_result :: apply_result where
  "empty_result = \<lparr>reverse = [], storageUpdates = [], presence_changed = False,
        createdNodeIds = [], applied = []\<rparr>"

text \<open>A machine without a socket and with two ops in the storage buffer.\<close>

definition offline_state :: state where
  "offline_state =
     (defaultState None None)
       \<lparr>buffer := \<lparr>buf_presence = None, messages = [],
                   storageOperations = [create_a, create_b]\<rparr>\<rparr>"

text \<open>
  The same with one op that has no \<^verbatim>\<open>opId\<close>, and with two different ops that have the
  same \<^verbatim>\<open>opId\<close>.
\<close>

definition unidentified_state :: state where
  "unidentified_state =
     (defaultState None None)
       \<lparr>buffer := \<lparr>buf_presence = None, messages = [],
                   storageOperations = [create_a, delete_op ''2:1'']\<rparr>\<rparr>"

definition duplicate_state :: state where
  "duplicate_state =
     (defaultState None None)
       \<lparr>buffer := \<lparr>buf_presence = None, messages = [],
                   storageOperations = [create_a, update_c\<lparr>opId := Some ''2:0''\<rparr>]\<rparr>\<rparr>"

text \<open>A machine with one entry on the redo stack.\<close>

definition redo_pending_state :: state where
  "redo_pending_state =
     (defaultState None None)\<lparr>redoStack := [[PresenceEntry [(''x'', JNum 5)]]]\<rparr>"

text \<open>
  A room as \<^verbatim>\<open>ROOM_STATE\<close> leaves it: user 7 is known, its presence has not arrived.
\<close>

definition silent_user :: user where
  "silent_user =
     \<lparr>connectionId = 7, user_id = Some ''u7'', info = None, presence = None,
      hasReceivedInitialPresence = False\<rparr>"

text \<open>User 9 has a presence already.\<close>

definition present_user :: user where
  "present_user =
     \<lparr>connectionId = 9, user_id = Some ''u9'', info = None,
      presence = Some [(''a'', JNum 1), (''cursor'', JStr ''B'')],
      hasReceivedInitialPresence = True\<rparr>"

definition gated_state :: state where
  "gated_state = (defaultState None None)\<lparr>users := [(7, silent_user), (9, present_user)]\<rparr>"

definition cursor_update :: "nat \<Rightarrow> int option \<Rightarrow> UpdatePresenceServerMsg" where
  "cursor_update a t = \<lparr>actor = a, msg_data = [(''cursor'', JStr ''A'')], targetActor = t\<rparr>"

text \<open>An open connection with listeners and one other user, and three close events.\<close>

definition open_state :: state where
  "open_state =
     (defaultState None None)
       \<lparr>connection := Open 7 None None,
        socket := Some WS_OPEN,
        listeners := \<lparr>on_event = [], on_others = [1], on_my_presence = [], on_error = [2, 3],
                      on_connection = [4], on_storage = [], on_history = []\<rparr>,
        users := [(9, silent_user\<lparr>connectionId := 9\<rparr>)]\<rparr>"

definition close_event :: "int \<Rightarrow> string \<Rightarrow> CloseEvent" where
  "close_event c r = \<lparr>code = c, wasClean = True, reason = r\<rparr>"

section \<open>Auxiliary notions\<close>

text \<open>A history item that holds presence entries only.\<close>

definition presence_only :: "HistoryItem \<Rightarrow> bool" where
  "presence_only item = (\<forall>x\<in>set item. case x of PresenceEntry d \<Rightarrow> True | OpEntry o1 \<Rightarrow> False)"

text \<open>
  A machine without a socket, outside a batch, with nothing in the storage buffer and
  only presence entries in its history.
\<close>

definition offline_idle :: "state \<Rightarrow> bool" where
  "offline_idle s =
     (\<not> isBatching s \<and> socket s = None \<and> storageOperations (buffer s) = []
      \<and> (\<forall>item\<in>set (undoStack s). presence_only item)
      \<and> (\<forall>item\<in>set (redoStack s). presence_only item))"

definition core_of :: "state \<Rightarrow> bool \<times> ReadyState option \<times> op list" where
  "core_of s = (isBatching s, socket s, storageOperations (buffer s))"

definition history_of :: "state \<Rightarrow> HistoryItem list \<times> HistoryItem list \<times> bool \<times> HistoryItem" where
  "history_of s = (undoStack s, redoStack s, isHistoryPaused s, pausedHistory s)"

text \<open>
  What \<^verbatim>\<open>onClose\<close> does before it looks at the close code: it clears the pong timeout,
  the heartbeat interval, the flush timeout if one is set and the reconnect timeout, and
  calls every listener of \<^verbatim>\<open>others\<close> with the empty list of users and a \<^verbatim>\<open>reset\<close>
  event.
\<close>

definition close_prelude :: "state \<Rightarrow> call list" where
  "close_prelude s =
     [ClearTimeout (pongTimeout (timeoutHandles s)), ClearInterval (heartbeat (intervalHandles s))]
     @ (case flush (timeoutHandles s) of
          None \<Rightarrow> []
        | Some h \<Rightarrow> if h \<noteq> 0 then [ClearTimeout h] else [])
     @ [ClearTimeout (reconnect (timeoutHandles s))]
     @ map (\<lambda>l. OthersListener l [] Reset) (on_others (listeners s))"

section \<open>Properties\<close>

subsection \<open>Maps\<close>

lemma map_of_kv_set: "map_of (kv_set m k v) = (map_of m)(k \<mapsto> v)"
  by (induction m) auto

lemma kv_get_kv_set: "kv_get (kv_set m k v) i = (if i = k then Some v else kv_get m i)"
  by (simp add: kv_get_def map_of_kv_set)

lemma find_app: "find P (xs @ ys) = (case find P xs of Some x \<Rightarrow> Some x | None \<Rightarrow> find P ys)"
  by (induction xs) auto

lemma set_tl_subset: "x \<in> set (tl xs) \<Longrightarrow> x \<in> set xs"
  by (cases xs) auto

lemma map_of_fold_kv_set:
  "map_of (fold (\<lambda>p acc. kv_set acc (fst p) (snd p)) xs acc) = map_of acc ++ map_of (rev xs)"
proof (induction xs arbitrary: acc)
  case Nil
  then show ?case by simp
next
  case (Cons x xs)
  show ?case
    by (cases x) (simp add: Cons.IH map_of_kv_set map_add_def fun_eq_iff split: option.splits)
qed

lemma map_of_rev_distinct: "distinct (map fst xs) \<Longrightarrow> map_of (rev xs) = map_of xs"
proof (induction xs)
  case Nil
  then show ?case by simp
next
  case (Cons x xs)
  then have "map_of xs (fst x) = None" by (simp add: map_of_eq_None_iff)
  then show ?case using Cons
    by (cases x) (auto simp: map_add_def fun_eq_iff split: option.splits)
qed

text \<open>\<^verbatim>\<open>{ ...a, ...b }\<close>: the entries of \<open>b\<close> win over those of \<open>a\<close>.\<close>

lemma map_of_spread:
  assumes "distinct (map fst a)" "distinct (map fst b)"
  shows "map_of (spread a b) = map_of a ++ map_of b"
  using assms by (simp add: spread_def map_of_fold_kv_set map_of_rev_distinct)

lemma obj_get_spread:
  assumes "distinct (map fst a)" "distinct (map fst b)"
  shows "obj_get (spread a b) k =
           (if k \<in> fst ` set b then obj_get b k else obj_get a k)"
proof (cases "map_of b k")
  case None
  then have "k \<notin> fst ` set b" by (simp add: map_of_eq_None_iff)
  then show ?thesis using None by (simp add: obj_get_def map_of_spread [OF assms] map_add_def)
next
  case (Some v)
  then have "k \<in> fst ` set b" by (metis map_of_eq_None_iff option.distinct(1))
  then show ?thesis using Some by (simp add: obj_get_def map_of_spread [OF assms] map_add_def)
qed

subsection \<open>Recording offline operations\<close>

lemma record_offline_ok:
  "\<forall>x\<in>set xs. opId x \<noteq> None \<Longrightarrow> fst (record_offline xs m) = None"
  by (induction xs arbitrary: m) (auto simp: nn_def split: option.splits)

lemma record_offline_get:
  "\<forall>x\<in>set xs. opId x \<noteq> None \<Longrightarrow>
   kv_get (snd (record_offline xs m)) i =
     (case find (\<lambda>x. opId x = Some i) (rev xs) of Some x \<Rightarrow> Some x | None \<Rightarrow> kv_get m i)"
proof (induction xs arbitrary: m)
  case Nil
  then show ?case by simp
next
  case (Cons a xs)
  then obtain j where j: "opId a = Some j" by auto
  have "kv_get (snd (record_offline xs (kv_set m j a))) i =
     (case find (\<lambda>x. opId x = Some i) (rev xs) of Some x \<Rightarrow> Some x | None \<Rightarrow> kv_get (kv_set m j a) i)"
    using Cons by simp
  then show ?case using j
    by (auto simp: nn_def kv_get_kv_set find_app split: option.splits)
qed

subsection \<open>What leaves the history alone\<close>

lemma history_of_emit [simp]: "history_of (emit cs s) = history_of s"
  by (simp add: history_of_def emit_def)

lemma history_of_notify [simp]: "history_of (notify su p evs s) = history_of s"
  by (simp add: history_of_def notify_def emit_def Let_def)

lemma history_of_tryFlushing [simp]: "history_of (snd (tryFlushing e s)) = history_of s"
  by (simp add: history_of_def tryFlushing_def emit_def Let_def split: prod.splits option.splits)

lemma history_of_buffer_ops [simp]: "history_of (buffer_ops item s) = history_of s"
  by (simp add: history_of_def buffer_ops_def)

lemma history_of_apply_presence [simp]: "history_of (snd (apply_presence d r s)) = history_of s"
  by (simp add: history_of_def apply_presence_def Let_def split: option.splits)

lemma history_of_assign_opId [simp]: "history_of (snd (assign_opId x s)) = history_of s"
  by (simp add: history_of_def assign_opId_def generateOpId_def split: prod.splits sum.splits)

lemma history_of_op_source [simp]: "history_of (snd (op_source l x s)) = history_of s"
  by (simp add: history_of_def op_source_def split: prod.splits sum.splits)

lemma history_of_applyOp [simp]: "history_of (snd (applyOp e x src s)) = history_of s"
  by (simp add: history_of_def applyOp_def split: prod.splits option.splits)

lemma history_of_apply_op [simp]: "history_of (snd (apply_op e l x r s)) = history_of s"
proof -
  obtain a s1 where a: "assign_opId x s = (a, s1)" by (cases "assign_opId x s")
  have h1: "history_of s1 = history_of s" using history_of_assign_opId [of x s] a by simp
  show ?thesis
  proof (cases a)
    case (Inl err)
    then show ?thesis using a h1 by (simp add: apply_op_def)
  next
    case (Inr x1)
    obtain b s2 where b: "op_source l x1 s1 = (b, s2)" by (cases "op_source l x1 s1")
    have h2: "history_of s2 = history_of s1" using history_of_op_source [of l x1 s1] b by simp
    show ?thesis
    proof (cases b)
      case (Inl err)
      then show ?thesis using a Inr b h1 h2 by (simp add: apply_op_def)
    next
      case (Inr src)
      obtain c s3 where c: "applyOp e x1 src s2 = (c, s3)" by (cases "applyOp e x1 src s2")
      have h3: "history_of s3 = history_of s2" using history_of_applyOp [of e x1 src s2] c by simp
      show ?thesis using a \<open>a = Inr x1\<close> b Inr c h1 h2 h3
        by (simp add: apply_op_def Let_def split: ApplyResult.splits)
    qed
  qed
qed

lemma history_of_apply_loop [simp]: "history_of (snd (apply_loop e l item r s)) = history_of s"
proof (induction item arbitrary: r s)
  case Nil
  then show ?case by simp
next
  case (Cons x xs)
  show ?case
  proof (cases x)
    case (OpEntry o1)
    obtain a s1 where a: "apply_op e l o1 r s = (a, s1)" by (cases "apply_op e l o1 r s")
    have "history_of s1 = history_of s" using history_of_apply_op [of e l o1 r s] a by simp
    then show ?thesis using OpEntry a Cons.IH by (cases a) simp_all
  next
    case (PresenceEntry d)
    obtain a s1 where a: "apply_presence d r s = (a, s1)" by (cases "apply_presence d r s")
    have "history_of s1 = history_of s" using history_of_apply_presence [of d r s] a by simp
    then show ?thesis using PresenceEntry a Cons.IH by simp
  qed
qed

lemma history_of_apply_item [simp]: "history_of (snd (apply_item e item l s)) = history_of s"
  by (simp add: apply_item_def)

lemma undo_unpause:
  assumes "\<not> isBatching s" "undoStack s \<noteq> []"
  shows "history_of (snd (undo e s)) =
           (butlast (undoStack s),
            (case fst (apply_item e (last (undoStack s)) True
                         (s\<lparr>undoStack := butlast (undoStack s), isHistoryPaused := False\<rparr>)) of
               Inl err \<Rightarrow> redoStack s
             | Inr r \<Rightarrow> redoStack s @ [reverse r]),
            False, pausedHistory s)"
proof -
  let ?s2 = "s\<lparr>undoStack := butlast (undoStack s), isHistoryPaused := False\<rparr>"
  obtain a s3 where a: "apply_item e (last (undoStack s)) True ?s2 = (a, s3)"
    by (cases "apply_item e (last (undoStack s)) True ?s2")
  have h: "history_of s3 = history_of ?s2"
    using history_of_apply_item [of e "last (undoStack s)" True ?s2] a by simp
  show ?thesis
  proof (cases a)
    case (Inl err)
    then show ?thesis using assms a h by (simp add: undo_def Let_def history_of_def)
  next
    case (Inr r)
    let ?s7 = "buffer_ops (applied r)
                 (onHistoryChange
                    ((notify (storageUpdates r) (presence_changed r) [] s3)
                       \<lparr>redoStack := redoStack (notify (storageUpdates r) (presence_changed r) [] s3)
                                      @ [reverse r]\<rparr>))"
    have "undo e s = tryFlushing e ?s7"
      using assms a Inr by (simp add: undo_def Let_def)
    moreover have "history_of ?s7 = (butlast (undoStack s), redoStack s @ [reverse r], False, pausedHistory s)"
      using h history_of_notify [of "storageUpdates r" "presence_changed r" "[]" s3]
      by (simp add: history_of_def onHistoryChange_def emit_def buffer_ops_def)
    ultimately show ?thesis using a Inr by simp
  qed
qed

lemma redo_unpause:
  assumes "\<not> isBatching s" "redoStack s \<noteq> []"
  shows "history_of (snd (redo e s)) =
           ((case fst (apply_item e (last (redoStack s)) True
                         (s\<lparr>redoStack := butlast (redoStack s), isHistoryPaused := False\<rparr>)) of
               Inl err \<Rightarrow> undoStack s
             | Inr r \<Rightarrow> undoStack s @ [reverse r]),
            butlast (redoStack s), False, pausedHistory s)"
proof -
  let ?s2 = "s\<lparr>redoStack := butlast (redoStack s), isHistoryPaused := False\<rparr>"
  obtain a s3 where a: "apply_item e (last (redoStack s)) True ?s2 = (a, s3)"
    by (cases "apply_item e (last (redoStack s)) True ?s2")
  have h: "history_of s3 = history_of ?s2"
    using history_of_apply_item [of e "last (redoStack s)" True ?s2] a by simp
  show ?thesis
  proof (cases a)
    case (Inl err)
    then show ?thesis using assms a h by (simp add: redo_def Let_def history_of_def)
  next
    case (Inr r)
    let ?s7 = "buffer_ops (applied r)
                 (onHistoryChange
                    ((notify (storageUpdates r) (presence_changed r) [] s3)
                       \<lparr>undoStack := undoStack (notify (storageUpdates r) (presence_changed r) [] s3)
                                      @ [reverse r]\<rparr>))"
    have "redo e s = tryFlushing e ?s7"
      using assms a Inr by (simp add: redo_def Let_def)
    moreover have "history_of ?s7 = (undoStack s @ [reverse r], butlast (redoStack s), False, pausedHistory s)"
      using h history_of_notify [of "storageUpdates r" "presence_changed r" "[]" s3]
      by (simp add: history_of_def onHistoryChange_def emit_def buffer_ops_def)
    ultimately show ?thesis using a Inr by simp
  qed
qed


subsection \<open>Presence-only history on a machine that is offline\<close>

lemma updatePresence_idle:
  assumes "offline_idle s" "\<not> isHistoryPaused s"
  shows "offline_idle (snd (updatePresence e ov (Some True) s))
       \<and> \<not> isHistoryPaused (snd (updatePresence e ov (Some True) s))
       \<and> redoStack (snd (updatePresence e ov (Some True) s)) = redoStack s
       \<and> length (undoStack (snd (updatePresence e ov (Some True) s))) =
           (if length (undoStack s) \<ge> 50 then length (undoStack s) else length (undoStack s) + 1)"
  using assms
  by (auto simp: offline_idle_def updatePresence_def tryFlushing_def and_then_def
      addToUndoStack_def notify_def onHistoryChange_def emit_def socket_is_open_def Let_def
      presence_only_def dest!: set_tl_subset)

lemma apply_presence_core:
  "core_of (snd (apply_presence d r s)) = core_of s
   \<and> undoStack (snd (apply_presence d r s)) = undoStack s
   \<and> redoStack (snd (apply_presence d r s)) = redoStack s
   \<and> isHistoryPaused (snd (apply_presence d r s)) = isHistoryPaused s
   \<and> reverse (fst (apply_presence d r s)) = PresenceEntry (fold (\<lambda>k r. kv_set r k (obj_get (me s) k)) (map fst d) []) # reverse r
   \<and> applied (fst (apply_presence d r s)) = applied r @ [PresenceEntry d]"
  by (simp add: core_of_def apply_presence_def Let_def split: option.splits)

lemma apply_loop_presence_only:
  "presence_only item \<Longrightarrow>
   \<exists>r' s'. apply_loop e l item r s = (Inr r', s')
     \<and> core_of s' = core_of s \<and> undoStack s' = undoStack s \<and> redoStack s' = redoStack s
     \<and> isHistoryPaused s' = isHistoryPaused s
     \<and> (presence_only (reverse r) \<longrightarrow> presence_only (reverse r'))
     \<and> (presence_only (applied r) \<longrightarrow> presence_only (applied r'))"
proof (induction item arbitrary: r s)
  case Nil
  then show ?case by simp
next
  case (Cons x xs)
  then obtain d where x: "x = PresenceEntry d"
    by (cases x) (auto simp: presence_only_def)
  have xs: "presence_only xs" using Cons.prems by (simp add: presence_only_def)
  obtain r1 s1 where a: "apply_presence d r s = (r1, s1)" by (cases "apply_presence d r s")
  have p: "core_of s1 = core_of s \<and> undoStack s1 = undoStack s \<and> redoStack s1 = redoStack s
      \<and> isHistoryPaused s1 = isHistoryPaused s
      \<and> reverse r1 = PresenceEntry (fold (\<lambda>k r. kv_set r k (obj_get (me s) k)) (map fst d) []) # reverse r
      \<and> applied r1 = applied r @ [PresenceEntry d]"
    using apply_presence_core [of d r s] a by simp
  obtain r' s' where b: "apply_loop e l xs r1 s1 = (Inr r', s')
     \<and> core_of s' = core_of s1 \<and> undoStack s' = undoStack s1 \<and> redoStack s' = redoStack s1
     \<and> isHistoryPaused s' = isHistoryPaused s1
     \<and> (presence_only (reverse r1) \<longrightarrow> presence_only (reverse r'))
     \<and> (presence_only (applied r1) \<longrightarrow> presence_only (applied r'))"
    using Cons.IH [OF xs, of r1 s1] by blast
  have "apply_loop e l (x # xs) r s = (Inr r', s')" using x a b by simp
  moreover have "presence_only (reverse r) \<longrightarrow> presence_only (reverse r1)"
    using p by (simp add: presence_only_def)
  moreover have "presence_only (applied r) \<longrightarrow> presence_only (applied r1)"
    using p by (simp add: presence_only_def)
  ultimately show ?case using p b by auto
qed

lemma buffer_ops_presence_only:
  "presence_only item \<Longrightarrow> storageOperations (buffer (buffer_ops item s)) = storageOperations (buffer s)"
proof -
  assume "presence_only item"
  then have "concat (map (\<lambda>x. case x of OpEntry o1 \<Rightarrow> [o1] | PresenceEntry d \<Rightarrow> []) item) = []"
    by (induction item) (auto simp: presence_only_def split: hist_entry.splits)
  then show ?thesis by (simp add: buffer_ops_def)
qed

lemma undo_idle:
  assumes "offline_idle s" "undoStack s \<noteq> []"
  shows "offline_idle (snd (undo e s)) \<and> \<not> isHistoryPaused (snd (undo e s))
       \<and> length (undoStack (snd (undo e s))) = length (undoStack s) - 1
       \<and> length (redoStack (snd (undo e s))) = length (redoStack s) + 1"
proof -
  let ?item = "last (undoStack s)"
  let ?s2 = "s\<lparr>undoStack := butlast (undoStack s), isHistoryPaused := False\<rparr>"
  let ?r0 = "\<lparr>reverse = [], storageUpdates = [], presence_changed = False,
        createdNodeIds = [], applied = []\<rparr>"
  have po: "presence_only ?item" using assms by (simp add: offline_idle_def)
  obtain r s3 where a: "apply_loop e True ?item ?r0 ?s2 = (Inr r, s3)
     \<and> core_of s3 = core_of ?s2 \<and> undoStack s3 = undoStack ?s2 \<and> redoStack s3 = redoStack ?s2
     \<and> isHistoryPaused s3 = isHistoryPaused ?s2
     \<and> (presence_only (reverse ?r0) \<longrightarrow> presence_only (reverse r))
     \<and> (presence_only (applied ?r0) \<longrightarrow> presence_only (applied r))"
    using apply_loop_presence_only [OF po, of e True ?r0 ?s2] by blast
  have rv: "presence_only (reverse r)" and ap: "presence_only (applied r)"
    using a by (simp_all add: presence_only_def)
  let ?s6 = "onHistoryChange
                    ((notify (storageUpdates r) (presence_changed r) [] s3)
                       \<lparr>redoStack := redoStack (notify (storageUpdates r) (presence_changed r) [] s3)
                                      @ [reverse r]\<rparr>)"
  have u: "undo e s = tryFlushing e (buffer_ops (applied r) ?s6)"
    using assms a by (simp add: undo_def Let_def apply_item_def offline_idle_def)
  have s6: "core_of ?s6 = core_of s \<and> undoStack ?s6 = butlast (undoStack s)
     \<and> redoStack ?s6 = redoStack s @ [reverse r] \<and> \<not> isHistoryPaused ?s6"
    using a by (simp add: core_of_def onHistoryChange_def notify_def emit_def Let_def)
  let ?s7 = "buffer_ops (applied r) ?s6"
  have s7: "isBatching ?s7 = isBatching s \<and> socket ?s7 = socket s
     \<and> storageOperations (buffer ?s7) = storageOperations (buffer s)
     \<and> undoStack ?s7 = butlast (undoStack s)
     \<and> redoStack ?s7 = redoStack s @ [reverse r] \<and> \<not> isHistoryPaused ?s7"
    using s6 buffer_ops_presence_only [OF ap, of ?s6]
    by (simp add: core_of_def) (simp add: buffer_ops_def)
  have "offline_idle (snd (tryFlushing e ?s7)) \<and> \<not> isHistoryPaused (snd (tryFlushing e ?s7))
       \<and> undoStack (snd (tryFlushing e ?s7)) = butlast (undoStack s)
       \<and> redoStack (snd (tryFlushing e ?s7)) = redoStack s @ [reverse r]"
    using s7 assms(1) rv
    by (auto simp: offline_idle_def tryFlushing_def socket_is_open_def dest: in_set_butlastD)
  then show ?thesis using u by simp
qed

lemma redo_idle:
  assumes "offline_idle s" "redoStack s \<noteq> []"
  shows "offline_idle (snd (redo e s)) \<and> \<not> isHistoryPaused (snd (redo e s))
       \<and> length (undoStack (snd (redo e s))) = length (undoStack s) + 1
       \<and> length (redoStack (snd (redo e s))) = length (redoStack s) - 1"
proof -
  let ?item = "last (redoStack s)"
  let ?s2 = "s\<lparr>redoStack := butlast (redoStack s), isHistoryPaused := False\<rparr>"
  let ?r0 = "\<lparr>reverse = [], storageUpdates = [], presence_changed = False,
        createdNodeIds = [], applied = []\<rparr>"
  have po: "presence_only ?item" using assms by (simp add: offline_idle_def)
  obtain r s3 where a: "apply_loop e True ?item ?r0 ?s2 = (Inr r, s3)
     \<and> core_of s3 = core_of ?s2 \<and> undoStack s3 = undoStack ?s2 \<and> redoStack s3 = redoStack ?s2
     \<and> isHistoryPaused s3 = isHistoryPaused ?s2
     \<and> (presence_only (reverse ?r0) \<longrightarrow> presence_only (reverse r))
     \<and> (presence_only (applied ?r0) \<longrightarrow> presence_only (applied r))"
    using apply_loop_presence_only [OF po, of e True ?r0 ?s2] by blast
  have rv: "presence_only (reverse r)" and ap: "presence_only (applied r)"
    using a by (simp_all add: presence_only_def)
  let ?s6 = "onHistoryChange
                    ((notify (storageUpdates r) (presence_changed r) [] s3)
                       \<lparr>undoStack := undoStack (notify (storageUpdates r) (presence_changed r) [] s3)
                                      @ [reverse r]\<rparr>)"
  have u: "redo e s = tryFlushing e (buffer_ops (applied r) ?s6)"
    using assms a by (simp add: redo_def Let_def apply_item_def offline_idle_def)
  have s6: "core_of ?s6 = core_of s \<and> redoStack ?s6 = butlast (redoStack s)
     \<and> undoStack ?s6 = undoStack s @ [reverse r] \<and> \<not> isHistoryPaused ?s6"
    using a by (simp add: core_of_def onHistoryChange_def notify_def emit_def Let_def)
  let ?s7 = "buffer_ops (applied r) ?s6"
  have s7: "isBatching ?s7 = isBatching s \<and> socket ?s7 = socket s
     \<and> storageOperations (buffer ?s7) = storageOperations (buffer s)
     \<and> redoStack ?s7 = butlast (redoStack s)
     \<and> undoStack ?s7 = undoStack s @ [reverse r] \<and> \<not> isHistoryPaused ?s7"
    using s6 buffer_ops_presence_only [OF ap, of ?s6]
    by (simp add: core_of_def) (simp add: buffer_ops_def)
  have "offline_idle (snd (tryFlushing e ?s7)) \<and> \<not> isHistoryPaused (snd (tryFlushing e ?s7))
       \<and> redoStack (snd (tryFlushing e ?s7)) = butlast (redoStack s)
       \<and> undoStack (snd (tryFlushing e ?s7)) = undoStack s @ [reverse r]"
    using s7 assms(1) rv
    by (auto simp: offline_idle_def tryFlushing_def socket_is_open_def dest: in_set_butlastD)
  then show ?thesis using u by simp
qed

lemma set_x_idle:
  assumes "offline_idle s" "\<not> isHistoryPaused s"
  shows "offline_idle (set_x v s) \<and> \<not> isHistoryPaused (set_x v s)
       \<and> redoStack (set_x v s) = redoStack s
       \<and> length (undoStack (set_x v s)) =
           (if length (undoStack s) \<ge> 50 then length (undoStack s) else length (undoStack s) + 1)"
  using updatePresence_idle [OF assms, of browser_env "[(''x'', JNum v)]"]
  by (simp add: set_x_def)

lemma set_x_steps:
  "n \<le> 50 \<Longrightarrow>
     offline_idle ((set_x v ^^ n) (defaultState None None))
     \<and> \<not> isHistoryPaused ((set_x v ^^ n) (defaultState None None))
     \<and> redoStack ((set_x v ^^ n) (defaultState None None)) = []
     \<and> length (undoStack ((set_x v ^^ n) (defaultState None None))) = n"
proof (induction n)
  case 0
  show ?case by (simp add: offline_idle_def defaultState_def empty_batch_def)
next
  case (Suc n)
  let ?s = "(set_x v ^^ n) (defaultState None None)"
  have ih: "offline_idle ?s \<and> \<not> isHistoryPaused ?s \<and> redoStack ?s = [] \<and> length (undoStack ?s) = n"
    using Suc by simp
  show ?case
    using set_x_idle [of ?s v] ih Suc.prems by simp
qed

subsection \<open>The cap of the undo stack\<close>

text \<open>\<^verbatim>\<open>resumeHistory\<close> moves the entries collected during a pause to the undo stack.\<close>

lemma resumeHistory_flushes:
  assumes "pausedHistory s \<noteq> []" "length (undoStack s) < 50"
  shows "undoStack (resumeHistory s) = undoStack s @ [pausedHistory s]"
    and "pausedHistory (resumeHistory s) = []"
    and "\<not> isHistoryPaused (resumeHistory s)"
  using assms
  by (simp_all add: resumeHistory_def addToUndoStack_def onHistoryChange_def emit_def Let_def)

lemma addToUndoStack_bound:
  "length (undoStack s) \<le> 50 \<Longrightarrow> length (undoStack (addToUndoStack item s)) \<le> 50"
  by (auto simp: addToUndoStack_def onHistoryChange_def emit_def Let_def)


subsection \<open>The flush scheduler\<close>

lemma tryFlushing_offline:
  "offlineOperations (snd (tryFlushing e s)) =
     snd (record_offline (storageOperations (buffer s)) (offlineOperations s))"
  by (simp add: tryFlushing_def emit_def Let_def split: prod.splits option.splits)

lemma tryFlushing_returns:
  assumes "fst (record_offline (storageOperations (buffer s)) (offlineOperations s)) = None"
  shows "fst (tryFlushing e s) = None"
proof -
  obtain m where "record_offline (storageOperations (buffer s)) (offlineOperations s) = (None, m)"
    using assms by (cases "record_offline (storageOperations (buffer s)) (offlineOperations s)") simp
  then show ?thesis by (simp add: tryFlushing_def Let_def)
qed

lemma tryFlushing_closed_socket:
  assumes "fst (record_offline (storageOperations (buffer s)) (offlineOperations s)) = None"
      and "\<not> socket_is_open s"
  shows "storageOperations (buffer (snd (tryFlushing e s))) = []
       \<and> trace (snd (tryFlushing e s)) = trace s"
proof -
  obtain m where "record_offline (storageOperations (buffer s)) (offlineOperations s) = (None, m)"
    using assms by (cases "record_offline (storageOperations (buffer s)) (offlineOperations s)") simp
  then show ?thesis using assms(2) by (simp add: tryFlushing_def socket_is_open_def Let_def)
qed

lemma find_in_set:
  "x \<in> set xs \<Longrightarrow> P x \<Longrightarrow> \<exists>y. find P xs = Some y \<and> y \<in> set xs \<and> P y"
  by (induction xs) auto

subsection \<open>What leaves the redo stack alone\<close>

lemma redoStack_tryFlushing: "redoStack (snd (tryFlushing e s)) = redoStack s"
  using history_of_tryFlushing [of e s] by (simp add: history_of_def)

lemma redoStack_notify: "redoStack (notify su p evs s) = redoStack s"
  using history_of_notify [of su p evs s] by (simp add: history_of_def)

lemma redoStack_addToUndoStack: "redoStack (addToUndoStack item s) = redoStack s"
  by (simp add: addToUndoStack_def onHistoryChange_def emit_def Let_def)

lemma redoStack_and_then:
  assumes "\<And>s'. redoStack (snd (f s')) = redoStack s'"
  shows "redoStack (snd (and_then r f)) = redoStack (snd r)"
  using assms by (cases r) (auto simp: and_then_def split: option.splits)

lemma redoStack_dispatch: "redoStack (snd (dispatch e xs s)) = redoStack s"
  by (simp add: dispatch_def redoStack_tryFlushing)

lemma redoStack_updatePresence: "redoStack (snd (updatePresence e ov opt s)) = redoStack s"
proof (cases "isBatching s")
  case True
  then show ?thesis by (simp add: updatePresence_def Let_def)
next
  case False
  let ?f = "\<lambda>(old::jsobj) s4. (None :: error option,
               notify [] True [] (if opt = Some True then addToUndoStack [PresenceEntry old] s4 else s4))"
  have f: "\<And>old s'. redoStack (snd (?f old s')) = redoStack s'"
    by (simp add: redoStack_notify redoStack_addToUndoStack)
  show ?thesis using False
    by (simp add: updatePresence_def Let_def redoStack_and_then [OF f] redoStack_tryFlushing)
qed

lemma redoStack_storageDispatch:
  "\<not> isBatching s \<Longrightarrow> redoStack (snd (storageDispatch e xs rv su s)) = []"
proof -
  assume nb: "\<not> isBatching s"
  let ?f = "\<lambda>s3. (None :: error option, notify su False [] s3)"
  have f: "\<And>s'. redoStack (snd (?f s')) = redoStack s'" by (simp add: redoStack_notify)
  show ?thesis using nb
    by (simp add: storageDispatch_def Let_def redoStack_and_then [OF f] redoStack_dispatch)
qed

lemma redoStack_batch_finally:
  "ops (batch s) \<noteq> [] \<Longrightarrow> redoStack (snd (batch_finally e s)) = []"
proof -
  assume ne: "ops (batch s) \<noteq> []"
  let ?f = "\<lambda>s4. tryFlushing e
             ((notify (b_storageUpdates (updates (batch s4))) (b_presence (updates (batch s4))) [] s4)
                \<lparr>batch := empty_batch\<rparr>)"
  have f: "\<And>s'. redoStack (snd (?f s')) = redoStack s'"
    by (simp add: redoStack_tryFlushing redoStack_notify)
  have b: "\<And>item s'. batch (addToUndoStack item s') = batch s'"
    by (simp add: addToUndoStack_def onHistoryChange_def emit_def Let_def)
  show ?thesis using ne
    by (simp add: batch_finally_def Let_def b redoStack_and_then [OF f] redoStack_dispatch)
qed

subsection \<open>The loop body of \<^verbatim>\<open>apply\<close> for a modified op\<close>

text \<open>
  The reverse ops of the engine reach the reverse list under the same test as the
  storage update, and under no other.
\<close>

lemma apply_op_modified:
  assumes "assign_opId x s = (Inr x1, s1)"
      and "op_source isLocal x1 s1 = (Inr source, s2)"
      and "applyOp e x1 source s2 = (Modified m engine_reverse, s3)"
      and "parent_id_of m = Inr pid"
      and "node_id (upd_node m) = Some nid"
  shows "\<exists>result'. apply_op e isLocal x result s = (Inr result', s3)
          \<and> reverse result' =
               (if pid = None \<or> pid = Some [] \<or> (\<forall>p. pid = Some p \<longrightarrow> p \<notin> set (createdNodeIds result))
                then map OpEntry engine_reverse @ reverse result
                else reverse result)
          \<and> storageUpdates result' =
               (if pid = None \<or> pid = Some [] \<or> (\<forall>p. pid = Some p \<longrightarrow> p \<notin> set (createdNodeIds result))
                then kv_set (storageUpdates result) nid
                       (mergeStorageUpdates e (kv_get (storageUpdates result) nid) m)
                else storageUpdates result)"
  using assms
  by (cases pid)
     (auto simp: apply_op_def record_modified_def update_wanted_def falsy_def nn_def Let_def)

subsection \<open>A creation followed by an update or by a nested creation\<close>

lemma step_a:
  "apply_op browser_env True create_a empty_result tree_state = (Inr result_after_a, state_after_a)"
  by (simp add: apply_op_def assign_opId_def op_source_def applyOp_def record_modified_def
      parent_id_of_def update_wanted_def is_create_def falsy_def nn_def kv_get_def
      browser_env_def object_attachChild_def create_a_def empty_result_def tree_state_def
      state_after_a_def result_after_a_def root_node_def node_a_def node_c_def delete_key_def
      defaultState_def Let_def)

lemma applyOp_c:
  "applyOp browser_env update_c UNDOREDO_RECONNECT state_after_a =
     (Modified \<lparr>upd_node = Node (Some ''9:1'') (Some root_node) False (JObj [(''v'', JNum 2)]),
                upd_change = JStr ''update''\<rparr> [restore_c],
      state_after_a\<lparr>items := [(''0:0'', root_node),
                                (''9:1'', Node (Some ''9:1'') (Some root_node) False
                                            (JObj [(''v'', JNum 2)])),
                                (''2:1'', node_a)]\<rparr>)"
  by (simp add: applyOp_def kv_get_def browser_env_def object_apply_def update_c_def
      restore_c_def state_after_a_def tree_state_def node_a_def node_c_def root_node_def
      spread_def obj_get_def defaultState_def Let_def)

lemma step_c:
  "apply_op browser_env True update_c result_after_a state_after_a =
     (Inr (result_after_a\<lparr>applied := [OpEntry create_a, OpEntry update_c]\<rparr>),
      state_after_a\<lparr>items := [(''0:0'', root_node),
                                (''9:1'', Node (Some ''9:1'') (Some root_node) False
                                            (JObj [(''v'', JNum 2)])),
                                (''2:1'', node_a)]\<rparr>)"
  by (simp add: apply_op_def assign_opId_def op_source_def applyOp_def record_modified_def
      parent_id_of_def update_wanted_def is_create_def falsy_def nn_def kv_get_def
      browser_env_def object_apply_def update_c_def result_after_a_def state_after_a_def
      tree_state_def node_a_def node_c_def root_node_def spread_def obj_get_def
      defaultState_def Let_def)

lemma applyOp_b:
  "applyOp browser_env create_b UNDOREDO_RECONNECT state_after_a =
     (Modified \<lparr>upd_node = node_a, upd_change = JStr ''update''\<rparr> [delete_key ''2:1'' ''b''],
      state_after_a\<lparr>items := [(''0:0'', root_node), (''9:1'', node_c), (''2:1'', node_a),
                                (''2:2'', node_b)]\<rparr>)"
  by (simp add: applyOp_def kv_get_def browser_env_def object_attachChild_def create_b_def
      state_after_a_def tree_state_def node_a_def node_b_def node_c_def root_node_def
      delete_key_def defaultState_def Let_def)

lemma step_b:
  "apply_op browser_env True create_b result_after_a state_after_a =
     (Inr (result_after_a\<lparr>createdNodeIds := [''2:1'', ''0:0''],
                          applied := [OpEntry create_a, OpEntry create_b]\<rparr>),
      state_after_a\<lparr>items := [(''0:0'', root_node), (''9:1'', node_c), (''2:1'', node_a),
                                (''2:2'', node_b)]\<rparr>)"
  by (simp add: apply_op_def assign_opId_def op_source_def applyOp_def record_modified_def
      parent_id_of_def update_wanted_def is_create_def falsy_def nn_def kv_get_def
      browser_env_def object_attachChild_def create_b_def result_after_a_def
      state_after_a_def tree_state_def node_a_def node_b_def node_c_def root_node_def
      delete_key_def defaultState_def Let_def)

subsection \<open>Closing the connection\<close>

lemma getRetryDelay_slow:
  "getRetryDelay True s = BACKOFF_RETRY_DELAYS_SLOW ! min (numberOfRetry s) 3"
  by (auto simp: getRetryDelay_def BACKOFF_RETRY_DELAYS_SLOW_def min_def)

lemma getRetryDelay_fast:
  "getRetryDelay False s = BACKOFF_RETRY_DELAYS ! min (numberOfRetry s) 6"
  by (auto simp: getRetryDelay_def BACKOFF_RETRY_DELAYS_def min_def)

lemma onClose_common:
  "users (onClose e ev s) = []" "others (onClose e ev s) = []" "socket (onClose e ev s) = None"
  by (simp_all add: onClose_def notify_def makeOthers_def updateConnection_def emit_def Let_def
        split: option.splits)

lemma onClose_failed:
  assumes "4000 \<le> code ev" "code ev \<le> 4100"
  shows "connection (onClose e ev s) = Unavailable"
    and "numberOfRetry (onClose e ev s) = numberOfRetry s + 1"
    and "reconnect (timeoutHandles (onClose e ev s)) =
           scheduleReconnect e (BACKOFF_RETRY_DELAYS_SLOW ! min (numberOfRetry s) 3)"
    and "trace (onClose e ev s) =
           trace s @ close_prelude s
            @ [SetConnection Failed]
            @ map (\<lambda>l. ConnectionListener l ''failed'') (on_connection (listeners s))
            @ map (\<lambda>l. ErrorListener l (reason ev) (code ev)) (on_error (listeners s))
            @ [SetConnection Unavailable]
            @ map (\<lambda>l. ConnectionListener l ''unavailable'') (on_connection (listeners s))
            @ [ScheduleReconnect (BACKOFF_RETRY_DELAYS_SLOW ! min (numberOfRetry s) 3)]"
  using assms
  by (simp_all add: onClose_def close_prelude_def notify_def makeOthers_def
        updateConnection_def getRetryDelay_slow emit_def Let_def split: option.splits)

lemma onClose_closed:
  assumes "\<not> (4000 \<le> code ev \<and> code ev \<le> 4100)" "code ev = CLOSE_WITHOUT_RETRY e"
  shows "connection (onClose e ev s) = Closed"
    and "numberOfRetry (onClose e ev s) = numberOfRetry s"
    and "reconnect (timeoutHandles (onClose e ev s)) = reconnect (timeoutHandles s)"
    and "trace (onClose e ev s) =
           trace s @ close_prelude s
            @ [SetConnection Closed]
            @ map (\<lambda>l. ConnectionListener l ''closed'') (on_connection (listeners s))"
proof -
  have c: "(4000 \<le> code ev \<and> code ev \<le> 4100) = False" using assms(1) by simp
  have d: "(code ev = CLOSE_WITHOUT_RETRY e) = True" using assms(2) by simp
  show "connection (onClose e ev s) = Closed"
    and "numberOfRetry (onClose e ev s) = numberOfRetry s"
    and "reconnect (timeoutHandles (onClose e ev s)) = reconnect (timeoutHandles s)"
    and "trace (onClose e ev s) =
           trace s @ close_prelude s
            @ [SetConnection Closed]
            @ map (\<lambda>l. ConnectionListener l ''closed'') (on_connection (listeners s))"
    by (simp_all add: onClose_def close_prelude_def notify_def makeOthers_def
          updateConnection_def emit_def Let_def c d split: option.splits)
qed

lemma onClose_unavailable:
  assumes "\<not> (4000 \<le> code ev \<and> code ev \<le> 4100)" "code ev \<noteq> CLOSE_WITHOUT_RETRY e"
  shows "connection (onClose e ev s) = Unavailable"
    and "numberOfRetry (onClose e ev s) = numberOfRetry s + 1"
    and "reconnect (timeoutHandles (onClose e ev s)) =
           scheduleReconnect e (BACKOFF_RETRY_DELAYS ! min (numberOfRetry s) 6)"
    and "trace (onClose e ev s) =
           trace s @ close_prelude s
            @ [SetConnection Unavailable]
            @ map (\<lambda>l. ConnectionListener l ''unavailable'') (on_connection (listeners s))
            @ [ScheduleReconnect (BACKOFF_RETRY_DELAYS ! min (numberOfRetry s) 6)]"
proof -
  have c: "(4000 \<le> code ev \<and> code ev \<le> 4100) = False" using assms(1) by simp
  have d: "(code ev = CLOSE_WITHOUT_RETRY e) = False" using assms(2) by simp
  show "connection (onClose e ev s) = Unavailable"
    and "numberOfRetry (onClose e ev s) = numberOfRetry s + 1"
    and "reconnect (timeoutHandles (onClose e ev s)) =
           scheduleReconnect e (BACKOFF_RETRY_DELAYS ! min (numberOfRetry s) 6)"
    and "trace (onClose e ev s) =
           trace s @ close_prelude s
            @ [SetConnection Unavailable]
            @ map (\<lambda>l. ConnectionListener l ''unavailable'') (on_connection (listeners s))
            @ [ScheduleReconnect (BACKOFF_RETRY_DELAYS ! min (numberOfRetry s) 6)]"
    by (simp_all add: onClose_def close_prelude_def notify_def makeOthers_def
          updateConnection_def getRetryDelay_fast emit_def Let_def c d split: option.splits)
qed

subsection \<open>An op without an id in the storage buffer\<close>

lemma record_offline_throws:
  "\<exists>x\<in>set xs. opId x = None \<Longrightarrow> fst (record_offline xs m) = Some AssertionFailed"
  by (induction xs arbitrary: m) (auto simp: nn_def split: option.splits)

lemma tryFlushing_throws:
  assumes "\<exists>x\<in>set (storageOperations (buffer s)). opId x = None"
  shows "fst (tryFlushing e s) = Some AssertionFailed
       \<and> buffer (snd (tryFlushing e s)) = buffer s
       \<and> trace (snd (tryFlushing e s)) = trace s"
proof -
  obtain m where
    "record_offline (storageOperations (buffer s)) (offlineOperations s) = (Some AssertionFailed, m)"
    using record_offline_throws [OF assms, of "offlineOperations s"]
    by (cases "record_offline (storageOperations (buffer s)) (offlineOperations s)") simp
  then show ?thesis by (simp add: tryFlushing_def)
qed

lemma tryFlushing_last_wins:
  assumes "\<forall>x\<in>set (storageOperations (buffer s)). opId x \<noteq> None"
  shows "kv_get (offlineOperations (snd (tryFlushing e s))) i =
           (case find (\<lambda>x. opId x = Some i) (rev (storageOperations (buffer s))) of
              Some x \<Rightarrow> Some x
            | None \<Rightarrow> kv_get (offlineOperations s) i)"
  using record_offline_get [OF assms, of "offlineOperations s" i]
  by (simp add: tryFlushing_offline)

subsection \<open>A presence object shared with the buffer\<close>

text \<open>
  With an initial presence, \<^verbatim>\<open>state.me\<close> and the data of the presence buffer are one
  object, and the first \<^verbatim>\<open>updatePresence\<close> records the new value as the old one; without
  sharing it records the old value.
\<close>

lemma shared_presence_history:
  "undoStack (snd (updatePresence browser_env [(''x'', JNum 2)] (Some True)
                     (defaultState (Some [(''x'', JNum 1)]) None)))
     = [[PresenceEntry [(''x'', JNum 2)]]]
   \<and> undoStack (snd (updatePresence browser_env [(''x'', JNum 2)] (Some True)
                     ((defaultState None None)\<lparr>me := [(''x'', JNum 1)]\<rparr>)))
     = [[PresenceEntry [(''x'', JNum 1)]]]
   \<and> me (snd (updatePresence browser_env [(''x'', JNum 2)] (Some True)
                     (defaultState (Some [(''x'', JNum 1)]) None))) = [(''x'', JNum 2)]"
  by (simp add: updatePresence_def defaultState_def tryFlushing_def and_then_def
      socket_is_open_def addToUndoStack_def onHistoryChange_def notify_def emit_def
      canUndo_def canRedo_def spread_def obj_get_def empty_batch_def Let_def)

section \<open>The claims\<close>

text \<open>
  C1. The undo stack is meant to hold at most 50 entries after every operation, on every
  path that appends to it. \<^verbatim>\<open>addToUndoStack\<close> keeps the bound (lemma
  \<open>addToUndoStack_bound\<close>), but \<^verbatim>\<open>redo()\<close> appends the reverse entry with
  \<^verbatim>\<open>state.undoStack.push\<close> and never shifts: the run \<open>overflow_run\<close> (fifty presence
  updates with history, an undo, one more presence update with history, a redo) ends
  with 51 entries on the undo stack.
\<close>

theorem redo_exceeds_history_bound: "length (undoStack overflow_run) = 51"
proof -
  let ?s50 = "(set_x 1 ^^ 50) (defaultState None None)"
  let ?s51 = "snd (undo browser_env ?s50)"
  let ?s52 = "set_x 2 ?s51"
  have a: "offline_idle ?s50 \<and> \<not> isHistoryPaused ?s50 \<and> redoStack ?s50 = []
      \<and> length (undoStack ?s50) = 50"
    using set_x_steps [of 50 1] by simp
  then have ne: "undoStack ?s50 \<noteq> []" by auto
  have b: "offline_idle ?s51 \<and> \<not> isHistoryPaused ?s51 \<and> length (undoStack ?s51) = 49
      \<and> length (redoStack ?s51) = 1"
    using undo_idle [of ?s50 browser_env] a ne by simp
  have c: "offline_idle ?s52 \<and> length (undoStack ?s52) = 50 \<and> length (redoStack ?s52) = 1"
    using set_x_idle [of ?s51 2] b by simp
  then have "redoStack ?s52 \<noteq> []" by auto
  then show ?thesis
    using redo_idle [of ?s52 browser_env] c by (simp add: overflow_run_def)
qed

text \<open>
  C2. The claim says that every local mutation outside undo and redo leaves the redo
  stack empty, \<^verbatim>\<open>updatePresence\<close> included. \<^verbatim>\<open>updatePresence\<close> never writes the redo
  stack: after one presence update with history and an undo, a further presence update
  (with or without \<^verbatim>\<open>addToHistory\<close>) leaves the redo entry in place.
\<close>

theorem updatePresence_keeps_redoStack:
  "\<not> isBatching (snd (undo browser_env (set_x 1 (defaultState None None))))
   \<and> redoStack (snd (updatePresence browser_env [(''x'', JNum 2)] None
                      (snd (undo browser_env (set_x 1 (defaultState None None)))))) \<noteq> []
   \<and> redoStack (snd (updatePresence browser_env [(''x'', JNum 2)] (Some True)
                      (snd (undo browser_env (set_x 1 (defaultState None None)))))) \<noteq> []"
proof -
  let ?s1 = "set_x 1 (defaultState None None)"
  let ?s2 = "snd (undo browser_env ?s1)"
  have a: "offline_idle ?s1 \<and> length (undoStack ?s1) = 1 \<and> redoStack ?s1 = []"
    using set_x_steps [of 1 1] by simp
  then have "undoStack ?s1 \<noteq> []" by auto
  then have b: "offline_idle ?s2 \<and> length (redoStack ?s2) = 1"
    using undo_idle [of ?s1 browser_env] a by simp
  then have "redoStack ?s2 \<noteq> []" by auto
  then show ?thesis using b by (simp add: redoStack_updatePresence offline_idle_def)
qed

text \<open>
  C2, as amended. Outside a batch, \<^verbatim>\<open>storageDispatch\<close> leaves the redo stack empty; a
  batch whose callback produced at least one op leaves the redo stack empty; and
  \<^verbatim>\<open>updatePresence\<close> leaves the redo stack as it was. All three hold also when the flush
  throws.
\<close>

theorem redo_invalidation:
  assumes "\<not> isBatching s"
  shows "redoStack (snd (storageDispatch e new_ops engine_reverse su s)) = []
       \<and> (ops (batch (snd (callback (s\<lparr>isBatching := True\<rparr>)))) \<noteq> []
            \<longrightarrow> redoStack (snd (run_batch e callback s)) = [])
       \<and> redoStack (snd (updatePresence e overrides options s)) = redoStack s"
proof (intro conjI impI)
  show "redoStack (snd (storageDispatch e new_ops engine_reverse su s)) = []"
    using redoStack_storageDispatch [OF assms] .
next
  assume ne: "ops (batch (snd (callback (s\<lparr>isBatching := True\<rparr>)))) \<noteq> []"
  obtain thrown s1 where c: "callback (s\<lparr>isBatching := True\<rparr>) = (thrown, s1)"
    by (cases "callback (s\<lparr>isBatching := True\<rparr>)")
  obtain r s2 where f: "batch_finally e s1 = (r, s2)" by (cases "batch_finally e s1")
  have "redoStack s2 = []" using redoStack_batch_finally [of s1 e] ne c f by simp
  then show "redoStack (snd (run_batch e callback s)) = []"
    using assms c f by (cases r) (simp_all add: run_batch_def)
next
  show "redoStack (snd (updatePresence e overrides options s)) = redoStack s"
    by (rule redoStack_updatePresence)
qed

theorem redo_invalidation_witness:
  "\<not> isBatching redo_pending_state \<and> redoStack redo_pending_state \<noteq> []
   \<and> ops (batch (snd (storageDispatch browser_env [create_a] [delete_op ''2:1''] []
                        (redo_pending_state\<lparr>isBatching := True\<rparr>)))) \<noteq> []
   \<and> redoStack (snd (storageDispatch browser_env [create_a] [delete_op ''2:1''] []
                       redo_pending_state)) = []
   \<and> redoStack (snd (run_batch browser_env
                       (storageDispatch browser_env [create_a] [delete_op ''2:1''] [])
                       redo_pending_state)) = []
   \<and> redoStack (snd (updatePresence browser_env [(''x'', JNum 2)] (Some True)
                       redo_pending_state)) = [[PresenceEntry [(''x'', JNum 5)]]]"
proof -
  have nb: "\<not> isBatching redo_pending_state"
    by (simp add: redo_pending_state_def defaultState_def)
  have produced:
    "ops (batch (snd (storageDispatch browser_env [create_a] [delete_op ''2:1''] []
                        (redo_pending_state\<lparr>isBatching := True\<rparr>)))) \<noteq> []"
    by (simp add: storageDispatch_def Let_def redo_pending_state_def defaultState_def
        empty_batch_def)
  show ?thesis
    using redo_invalidation [OF nb, of browser_env "[create_a]" "[delete_op ''2:1'']" "[]"
        "storageDispatch browser_env [create_a] [delete_op ''2:1''] []"
        "[(''x'', JNum 2)]" "Some True"]
      nb produced
    by (simp add: redo_pending_state_def defaultState_def)
qed

text \<open>
  C3. An \<^verbatim>\<open>UPDATE_PRESENCE\<close> message without \<^verbatim>\<open>targetActor\<close> for an actor whose record
  exists and has not received its initial presence is dropped: the state (the users
  map with it) is returned as it was and no event is returned. In every other case an
  \<^verbatim>\<open>update\<close> event is returned: when the actor has no record, one is created with
  \<^verbatim>\<open>presence = data\<close> and the flag set; otherwise the data is merged into the presence of
  the record and the flag is set. Merged means: the new presence has, for every key of
  the data, the value of the data, and for every other key the value of the old
  presence. (An object has every key once; for lists with repeated keys the last entry
  of a key counts, which is what \<open>rev\<close> says.)
\<close>

theorem onUpdatePresenceMessage_cases:
  "(targetActor m = None \<and> kv_get (users s) (actor m) = Some u
      \<and> \<not> hasReceivedInitialPresence u
     \<longrightarrow> onUpdatePresenceMessage m s = (None, s))
   \<and> (kv_get (users s) (actor m) = None
     \<longrightarrow> onUpdatePresenceMessage m s =
           (Some (Update (msg_data m)
                    \<lparr>connectionId = actor m, user_id = None, info = None,
                     presence = Some (msg_data m), hasReceivedInitialPresence = True\<rparr>),
            s\<lparr>users := kv_set (users s) (actor m)
                 \<lparr>connectionId = actor m, user_id = None, info = None,
                  presence = Some (msg_data m), hasReceivedInitialPresence = True\<rparr>\<rparr>))
   \<and> (kv_get (users s) (actor m) = Some u
      \<and> (targetActor m \<noteq> None \<or> hasReceivedInitialPresence u)
     \<longrightarrow> onUpdatePresenceMessage m s =
           (Some (Update (msg_data m)
                    \<lparr>connectionId = actor m, user_id = user_id u, info = info u,
                     presence = Some (spread (case presence u of None \<Rightarrow> [] | Some p \<Rightarrow> p)
                                        (msg_data m)),
                     hasReceivedInitialPresence = True\<rparr>),
            s\<lparr>users := kv_set (users s) (actor m)
                 \<lparr>connectionId = actor m, user_id = user_id u, info = info u,
                  presence = Some (spread (case presence u of None \<Rightarrow> [] | Some p \<Rightarrow> p)
                                     (msg_data m)),
                  hasReceivedInitialPresence = True\<rparr>\<rparr>)
         \<and> map_of (spread (case presence u of None \<Rightarrow> [] | Some p \<Rightarrow> p) (msg_data m)) =
             map_of (rev (case presence u of None \<Rightarrow> [] | Some p \<Rightarrow> p))
               ++ map_of (rev (msg_data m))
         \<and> (distinct (map fst (case presence u of None \<Rightarrow> [] | Some p \<Rightarrow> p))
              \<and> distinct (map fst (msg_data m))
            \<longrightarrow> (\<forall>k. obj_get (spread (case presence u of None \<Rightarrow> [] | Some p \<Rightarrow> p)
                                  (msg_data m)) k =
                       (if k \<in> fst ` set (msg_data m) then obj_get (msg_data m) k
                        else obj_get (case presence u of None \<Rightarrow> [] | Some p \<Rightarrow> p) k))))"
proof (intro conjI impI)
  show "onUpdatePresenceMessage m s = (None, s)"
    if "targetActor m = None \<and> kv_get (users s) (actor m) = Some u
        \<and> \<not> hasReceivedInitialPresence u"
    using that by (simp add: onUpdatePresenceMessage_def Let_def)
next
  show "onUpdatePresenceMessage m s =
           (Some (Update (msg_data m)
                    \<lparr>connectionId = actor m, user_id = None, info = None,
                     presence = Some (msg_data m), hasReceivedInitialPresence = True\<rparr>),
            s\<lparr>users := kv_set (users s) (actor m)
                 \<lparr>connectionId = actor m, user_id = None, info = None,
                  presence = Some (msg_data m), hasReceivedInitialPresence = True\<rparr>\<rparr>)"
    if "kv_get (users s) (actor m) = None"
    using that by (simp add: onUpdatePresenceMessage_def Let_def)
next
  show "onUpdatePresenceMessage m s =
           (Some (Update (msg_data m)
                    \<lparr>connectionId = actor m, user_id = user_id u, info = info u,
                     presence = Some (spread (case presence u of None \<Rightarrow> [] | Some p \<Rightarrow> p)
                                        (msg_data m)),
                     hasReceivedInitialPresence = True\<rparr>),
            s\<lparr>users := kv_set (users s) (actor m)
                 \<lparr>connectionId = actor m, user_id = user_id u, info = info u,
                  presence = Some (spread (case presence u of None \<Rightarrow> [] | Some p \<Rightarrow> p)
                                     (msg_data m)),
                  hasReceivedInitialPresence = True\<rparr>\<rparr>)"
    if "kv_get (users s) (actor m) = Some u
        \<and> (targetActor m \<noteq> None \<or> hasReceivedInitialPresence u)"
    using that by (auto simp: onUpdatePresenceMessage_def Let_def)
next
  show "map_of (spread (case presence u of None \<Rightarrow> [] | Some p \<Rightarrow> p) (msg_data m)) =
          map_of (rev (case presence u of None \<Rightarrow> [] | Some p \<Rightarrow> p)) ++ map_of (rev (msg_data m))"
    by (simp add: spread_def map_of_fold_kv_set)
next
  assume d: "distinct (map fst (case presence u of None \<Rightarrow> [] | Some p \<Rightarrow> p))
             \<and> distinct (map fst (msg_data m))"
  show "\<forall>k. obj_get (spread (case presence u of None \<Rightarrow> [] | Some p \<Rightarrow> p) (msg_data m)) k =
            (if k \<in> fst ` set (msg_data m) then obj_get (msg_data m) k
             else obj_get (case presence u of None \<Rightarrow> [] | Some p \<Rightarrow> p) k)"
    using d obj_get_spread by blast
qed

theorem onUpdatePresenceMessage_cases_witness:
  "targetActor (cursor_update 7 None) = None
   \<and> kv_get (users gated_state) 7 = Some silent_user
   \<and> \<not> hasReceivedInitialPresence silent_user
   \<and> onUpdatePresenceMessage (cursor_update 7 None) gated_state = (None, gated_state)
   \<and> kv_get (users gated_state) 8 = None
   \<and> fst (onUpdatePresenceMessage (cursor_update 8 None) gated_state) =
       Some (Update [(''cursor'', JStr ''A'')]
               \<lparr>connectionId = 8, user_id = None, info = None,
                presence = Some [(''cursor'', JStr ''A'')], hasReceivedInitialPresence = True\<rparr>)
   \<and> fst (onUpdatePresenceMessage (cursor_update 7 (Some 1)) gated_state) =
       Some (Update [(''cursor'', JStr ''A'')]
               \<lparr>connectionId = 7, user_id = Some ''u7'', info = None,
                presence = Some [(''cursor'', JStr ''A'')], hasReceivedInitialPresence = True\<rparr>)
   \<and> kv_get (users gated_state) 9 = Some present_user
   \<and> presence present_user = Some [(''a'', JNum 1), (''cursor'', JStr ''B'')]
   \<and> hasReceivedInitialPresence present_user
   \<and> fst (onUpdatePresenceMessage (cursor_update 9 None) gated_state) =
       Some (Update [(''cursor'', JStr ''A'')]
               \<lparr>connectionId = 9, user_id = Some ''u9'', info = None,
                presence = Some [(''a'', JNum 1), (''cursor'', JStr ''A'')],
                hasReceivedInitialPresence = True\<rparr>)
   \<and> kv_get (users (snd (onUpdatePresenceMessage (cursor_update 9 None) gated_state))) 9 =
       Some \<lparr>connectionId = 9, user_id = Some ''u9'', info = None,
             presence = Some [(''a'', JNum 1), (''cursor'', JStr ''A'')],
             hasReceivedInitialPresence = True\<rparr>
   \<and> obj_get (spread [(''a'', JNum 1), (''cursor'', JStr ''B'')] [(''cursor'', JStr ''A'')]) ''a''
       = JNum 1
   \<and> obj_get (spread [(''a'', JNum 1), (''cursor'', JStr ''B'')] [(''cursor'', JStr ''A'')])
        ''cursor'' = JStr ''A''"
  using onUpdatePresenceMessage_cases [of "cursor_update 7 None" gated_state silent_user]
    onUpdatePresenceMessage_cases [of "cursor_update 8 None" gated_state silent_user]
    onUpdatePresenceMessage_cases [of "cursor_update 7 (Some 1)" gated_state silent_user]
    onUpdatePresenceMessage_cases [of "cursor_update 9 None" gated_state present_user]
  by (simp add: cursor_update_def gated_state_def silent_user_def present_user_def
      defaultState_def kv_get_def spread_def obj_get_def)

text \<open>
  C4. On every close event the users map is emptied and the listeners of \<^verbatim>\<open>others\<close> get
  a \<^verbatim>\<open>reset\<close> event before anything that depends on the close code happens
  (\<open>close_prelude\<close>). For a code from 4000 to 4100 the connection is set to \<^verbatim>\<open>failed\<close>,
  every error listener is called with the reason and the code of the event, the
  connection is set to \<^verbatim>\<open>unavailable\<close> and a reconnect is scheduled with the slow
  delay for the current number of retries. For any other code that equals
  \<^verbatim>\<open>CLOSE_WITHOUT_RETRY\<close> the connection is set to \<^verbatim>\<open>closed\<close> and nothing is scheduled.
  For the remaining codes the connection is set to \<^verbatim>\<open>unavailable\<close> and a reconnect is
  scheduled with the fast delay.
\<close>

theorem onClose_cases:
  "users (onClose e ev s) = [] \<and> others (onClose e ev s) = [] \<and> socket (onClose e ev s) = None
   \<and> (4000 \<le> code ev \<and> code ev \<le> 4100 \<longrightarrow>
        connection (onClose e ev s) = Unavailable
        \<and> numberOfRetry (onClose e ev s) = numberOfRetry s + 1
        \<and> reconnect (timeoutHandles (onClose e ev s)) =
            scheduleReconnect e (BACKOFF_RETRY_DELAYS_SLOW ! min (numberOfRetry s) 3)
        \<and> trace (onClose e ev s) =
            trace s @ close_prelude s
            @ [SetConnection Failed]
            @ map (\<lambda>l. ConnectionListener l ''failed'') (on_connection (listeners s))
            @ map (\<lambda>l. ErrorListener l (reason ev) (code ev)) (on_error (listeners s))
            @ [SetConnection Unavailable]
            @ map (\<lambda>l. ConnectionListener l ''unavailable'') (on_connection (listeners s))
            @ [ScheduleReconnect (BACKOFF_RETRY_DELAYS_SLOW ! min (numberOfRetry s) 3)])
   \<and> (\<not> (4000 \<le> code ev \<and> code ev \<le> 4100) \<and> code ev = CLOSE_WITHOUT_RETRY e \<longrightarrow>
        connection (onClose e ev s) = Closed
        \<and> numberOfRetry (onClose e ev s) = numberOfRetry s
        \<and> reconnect (timeoutHandles (onClose e ev s)) = reconnect (timeoutHandles s)
        \<and> trace (onClose e ev s) =
            trace s @ close_prelude s
            @ [SetConnection Closed]
            @ map (\<lambda>l. ConnectionListener l ''closed'') (on_connection (listeners s)))
   \<and> (\<not> (4000 \<le> code ev \<and> code ev \<le> 4100) \<and> code ev \<noteq> CLOSE_WITHOUT_RETRY e \<longrightarrow>
        connection (onClose e ev s) = Unavailable
        \<and> numberOfRetry (onClose e ev s) = numberOfRetry s + 1
        \<and> reconnect (timeoutHandles (onClose e ev s)) =
            scheduleReconnect e (BACKOFF_RETRY_DELAYS ! min (numberOfRetry s) 6)
        \<and> trace (onClose e ev s) =
            trace s @ close_prelude s
            @ [SetConnection Unavailable]
            @ map (\<lambda>l. ConnectionListener l ''unavailable'') (on_connection (listeners s))
            @ [ScheduleReconnect (BACKOFF_RETRY_DELAYS ! min (numberOfRetry s) 6)])"
  using onClose_common [of e ev s] onClose_failed [of ev e s] onClose_closed [of ev e s]
    onClose_unavailable [of ev e s]
  by blast

theorem onClose_cases_witness:
  "users (onClose browser_env (close_event 4001 ''kicked'') open_state) = []
   \<and> connection (onClose browser_env (close_event 4001 ''kicked'') open_state) = Unavailable
   \<and> trace (onClose browser_env (close_event 4001 ''kicked'') open_state) =
       [ClearTimeout 0, ClearInterval 0, ClearTimeout 0,
        OthersListener 1 [] Reset,
        SetConnection Failed, ConnectionListener 4 ''failed'',
        ErrorListener 2 ''kicked'' 4001, ErrorListener 3 ''kicked'' 4001,
        SetConnection Unavailable, ConnectionListener 4 ''unavailable'',
        ScheduleReconnect 2000]
   \<and> connection (onClose browser_env (close_event 4999 ''bye'') open_state) = Closed
   \<and> trace (onClose browser_env (close_event 4999 ''bye'') open_state) =
       [ClearTimeout 0, ClearInterval 0, ClearTimeout 0,
        OthersListener 1 [] Reset,
        SetConnection Closed, ConnectionListener 4 ''closed'']
   \<and> connection (onClose browser_env (close_event 1006 ''lost'') open_state) = Unavailable
   \<and> trace (onClose browser_env (close_event 1006 ''lost'') open_state) =
       [ClearTimeout 0, ClearInterval 0, ClearTimeout 0,
        OthersListener 1 [] Reset,
        SetConnection Unavailable, ConnectionListener 4 ''unavailable'',
        ScheduleReconnect 250]"
  using onClose_cases [of browser_env "close_event 4001 ''kicked''" open_state]
    onClose_cases [of browser_env "close_event 4999 ''bye''" open_state]
    onClose_cases [of browser_env "close_event 1006 ''lost''" open_state]
  by (simp add: close_event_def open_state_def defaultState_def browser_env_def
      close_prelude_def BACKOFF_RETRY_DELAYS_def BACKOFF_RETRY_DELAYS_SLOW_def)

text \<open>
  C5. The reverse ops of every op that the engine reports as modified belong in front
  of the reverse list, also when the storage update of the modified node is suppressed.
  The comment of the source speaks of the storage updates only (``we don't want to
  notify storage updates for the children''), but the \<^verbatim>\<open>unshift\<close> stands inside the same
  \<^verbatim>\<open>if\<close>, so the reverse ops are dropped together with the update. Applied to a tree
  with a root and an object \<^verbatim>\<open>9:1\<close> under it: after \<open>create_a\<close> has created an object
  under the root, the engine reports \<open>update_c\<close> as modified with the reverse op
  \<open>restore_c\<close>, and the reverse list of \<^verbatim>\<open>apply\<close> holds the reverse of \<open>create_a\<close> only;
  undoing the entry would not restore \<^verbatim>\<open>9:1\<close>. The same happens to the reverse op of
  \<open>create_b\<close>, which creates an object under the object that \<open>create_a\<close> created.
\<close>

theorem apply_drops_reverse_of_modified_op:
  "fst (applyOp browser_env update_c UNDOREDO_RECONNECT state_after_a) =
     Modified \<lparr>upd_node = Node (Some ''9:1'') (Some root_node) False (JObj [(''v'', JNum 2)]),
               upd_change = JStr ''update''\<rparr> [restore_c]
   \<and> (case fst (apply_item browser_env [OpEntry create_a, OpEntry update_c] True tree_state) of
         Inl err \<Rightarrow> False
       | Inr r \<Rightarrow> reverse r = [OpEntry (delete_key ''0:0'' ''a'')]
                 \<and> OpEntry restore_c \<notin> set (reverse r)
                 \<and> map fst (storageUpdates r) = [''0:0''])
   \<and> fst (applyOp browser_env create_b UNDOREDO_RECONNECT state_after_a) =
       Modified \<lparr>upd_node = node_a, upd_change = JStr ''update''\<rparr> [delete_key ''2:1'' ''b'']
   \<and> (case fst (apply_item browser_env [OpEntry create_a, OpEntry create_b] True tree_state) of
         Inl err \<Rightarrow> False
       | Inr r \<Rightarrow> reverse r = [OpEntry (delete_key ''0:0'' ''a'')]
                 \<and> OpEntry (delete_key ''2:1'' ''b'') \<notin> set (reverse r))"
proof -
  have c: "fst (apply_item browser_env [OpEntry create_a, OpEntry update_c] True tree_state) =
             Inr (result_after_a\<lparr>applied := [OpEntry create_a, OpEntry update_c]\<rparr>)"
    using step_a step_c by (simp add: apply_item_def empty_result_def)
  have b: "fst (apply_item browser_env [OpEntry create_a, OpEntry create_b] True tree_state) =
             Inr (result_after_a\<lparr>createdNodeIds := [''2:1'', ''0:0''],
                                 applied := [OpEntry create_a, OpEntry create_b]\<rparr>)"
    using step_a step_b by (simp add: apply_item_def empty_result_def)
  show ?thesis
    by (simp add: c b applyOp_c applyOp_b result_after_a_def delete_key_def restore_c_def)
qed

text \<open>
  C6. The claim says that after any call of \<^verbatim>\<open>tryFlushing\<close> every op that was in
  \<^verbatim>\<open>buffer.storageOperations\<close> is in \<^verbatim>\<open>offlineOperations\<close> under its \<^verbatim>\<open>opId\<close>, and that
  with a socket that is \<^verbatim>\<open>null\<close> or not \<^verbatim>\<open>OPEN\<close> the storage buffer is emptied. The loop
  stores each op under \<^verbatim>\<open>nn(op.opId)\<close>. With an op that has no \<^verbatim>\<open>opId\<close> in the buffer
  the assertion throws: the op is not recorded and the buffer is not emptied, although
  there is no socket. With two different ops under one \<^verbatim>\<open>opId\<close> the second replaces the
  first in the map.
\<close>

theorem tryFlushing_without_opId:
  "socket unidentified_state = None
   \<and> storageOperations (buffer unidentified_state) = [create_a, delete_op ''2:1'']
   \<and> fst (tryFlushing browser_env unidentified_state) = Some AssertionFailed
   \<and> storageOperations (buffer (snd (tryFlushing browser_env unidentified_state))) =
       [create_a, delete_op ''2:1'']
   \<and> map snd (offlineOperations (snd (tryFlushing browser_env unidentified_state))) = [create_a]
   \<and> create_a \<in> set (storageOperations (buffer duplicate_state))
   \<and> opId create_a = Some ''2:0''
   \<and> kv_get (offlineOperations (snd (tryFlushing browser_env duplicate_state))) ''2:0''
       = Some (update_c\<lparr>opId := Some ''2:0''\<rparr>)
   \<and> update_c\<lparr>opId := Some ''2:0''\<rparr> \<noteq> create_a"
  by (simp add: tryFlushing_def unidentified_state_def duplicate_state_def defaultState_def
      socket_is_open_def nn_def kv_get_def create_a_def update_c_def delete_op_def)

text \<open>
  C6, as amended. When every op of the storage buffer has an \<^verbatim>\<open>opId\<close>, \<^verbatim>\<open>tryFlushing\<close>
  returns and \<^verbatim>\<open>offlineOperations\<close> holds, under every \<^verbatim>\<open>opId\<close> of the buffer, the last
  op of the buffer with that \<^verbatim>\<open>opId\<close> (and is unchanged at the other keys), whatever the
  state of the socket; so every op of the buffer is there under its \<^verbatim>\<open>opId\<close> when ops of
  the buffer with the same \<^verbatim>\<open>opId\<close> are the same op. With the socket \<^verbatim>\<open>null\<close> or not
  \<^verbatim>\<open>OPEN\<close>, the storage buffer is empty afterwards and nothing was sent. When an op of
  the buffer has no \<^verbatim>\<open>opId\<close>, \<^verbatim>\<open>tryFlushing\<close> throws at the assertion, leaves the buffer
  as it was and sends nothing.
\<close>

theorem tryFlushing_records_offline:
  "((\<forall>x\<in>set (storageOperations (buffer s)). opId x \<noteq> None) \<longrightarrow>
      fst (tryFlushing e s) = None
      \<and> (\<forall>i. kv_get (offlineOperations (snd (tryFlushing e s))) i =
               (case find (\<lambda>x. opId x = Some i) (rev (storageOperations (buffer s))) of
                  Some x \<Rightarrow> Some x
                | None \<Rightarrow> kv_get (offlineOperations s) i))
      \<and> (\<not> socket_is_open s \<longrightarrow>
            storageOperations (buffer (snd (tryFlushing e s))) = []
            \<and> trace (snd (tryFlushing e s)) = trace s))
   \<and> ((\<forall>x\<in>set (storageOperations (buffer s)). opId x \<noteq> None)
       \<and> (\<forall>x\<in>set (storageOperations (buffer s)).
             \<forall>y\<in>set (storageOperations (buffer s)). opId x = opId y \<longrightarrow> x = y) \<longrightarrow>
      (\<forall>x\<in>set (storageOperations (buffer s)).
         \<forall>i. opId x = Some i \<longrightarrow>
             kv_get (offlineOperations (snd (tryFlushing e s))) i = Some x))
   \<and> ((\<exists>x\<in>set (storageOperations (buffer s)). opId x = None) \<longrightarrow>
      fst (tryFlushing e s) = Some AssertionFailed
      \<and> buffer (snd (tryFlushing e s)) = buffer s
      \<and> trace (snd (tryFlushing e s)) = trace s)"
proof (intro conjI impI allI ballI)
  assume ids: "\<forall>x\<in>set (storageOperations (buffer s)). opId x \<noteq> None"
  show "fst (tryFlushing e s) = None"
    using record_offline_ok [OF ids] tryFlushing_returns by simp
next
  fix i
  assume ids: "\<forall>x\<in>set (storageOperations (buffer s)). opId x \<noteq> None"
  show "kv_get (offlineOperations (snd (tryFlushing e s))) i =
          (case find (\<lambda>x. opId x = Some i) (rev (storageOperations (buffer s))) of
             Some x \<Rightarrow> Some x
           | None \<Rightarrow> kv_get (offlineOperations s) i)"
    using tryFlushing_last_wins [OF ids] .
next
  assume ids: "\<forall>x\<in>set (storageOperations (buffer s)). opId x \<noteq> None"
    and closed: "\<not> socket_is_open s"
  show "storageOperations (buffer (snd (tryFlushing e s))) = []"
    using tryFlushing_closed_socket [OF record_offline_ok [OF ids] closed] by simp
next
  assume ids: "\<forall>x\<in>set (storageOperations (buffer s)). opId x \<noteq> None"
    and closed: "\<not> socket_is_open s"
  show "trace (snd (tryFlushing e s)) = trace s"
    using tryFlushing_closed_socket [OF record_offline_ok [OF ids] closed] by simp
next
  fix x i
  assume both: "(\<forall>x\<in>set (storageOperations (buffer s)). opId x \<noteq> None)
       \<and> (\<forall>x\<in>set (storageOperations (buffer s)).
             \<forall>y\<in>set (storageOperations (buffer s)). opId x = opId y \<longrightarrow> x = y)"
    and x: "x \<in> set (storageOperations (buffer s))" and i: "opId x = Some i"
  let ?B = "storageOperations (buffer s)"
  have ids: "\<forall>x\<in>set ?B. opId x \<noteq> None" using both by simp
  have "x \<in> set (rev ?B)" using x by simp
  then obtain y where y: "find (\<lambda>z. opId z = Some i) (rev ?B) = Some y" "y \<in> set (rev ?B)"
      "opId y = Some i"
    using find_in_set [of x "rev ?B" "\<lambda>z. opId z = Some i"] i by blast
  then have "y = x" using both x i by simp
  then show "kv_get (offlineOperations (snd (tryFlushing e s))) i = Some x"
    using tryFlushing_last_wins [OF ids, of e i] y by simp
next
  assume "\<exists>x\<in>set (storageOperations (buffer s)). opId x = None"
  then show "fst (tryFlushing e s) = Some AssertionFailed"
    using tryFlushing_throws by simp
next
  assume "\<exists>x\<in>set (storageOperations (buffer s)). opId x = None"
  then show "buffer (snd (tryFlushing e s)) = buffer s"
    using tryFlushing_throws by simp
next
  assume "\<exists>x\<in>set (storageOperations (buffer s)). opId x = None"
  then show "trace (snd (tryFlushing e s)) = trace s"
    using tryFlushing_throws by simp
qed

theorem tryFlushing_records_offline_witness:
  "storageOperations (buffer offline_state) = [create_a, create_b]
   \<and> opId create_a = Some ''2:0'' \<and> opId create_b = Some ''2:1''
   \<and> \<not> socket_is_open offline_state
   \<and> fst (tryFlushing browser_env offline_state) = None
   \<and> kv_get (offlineOperations (snd (tryFlushing browser_env offline_state))) ''2:0''
       = Some create_a
   \<and> kv_get (offlineOperations (snd (tryFlushing browser_env offline_state))) ''2:1''
       = Some create_b
   \<and> storageOperations (buffer (snd (tryFlushing browser_env offline_state))) = []
   \<and> trace (snd (tryFlushing browser_env offline_state)) = []
   \<and> storageOperations (buffer unidentified_state) = [create_a, delete_op ''2:1'']
   \<and> opId (delete_op ''2:1'') = None
   \<and> fst (tryFlushing browser_env unidentified_state) = Some AssertionFailed
   \<and> buffer (snd (tryFlushing browser_env unidentified_state)) = buffer unidentified_state
   \<and> trace (snd (tryFlushing browser_env unidentified_state)) = []"
proof -
  have ids: "\<forall>x\<in>set (storageOperations (buffer offline_state)). opId x \<noteq> None"
    by (simp add: offline_state_def create_a_def create_b_def)
  have same: "\<forall>x\<in>set (storageOperations (buffer offline_state)).
                \<forall>y\<in>set (storageOperations (buffer offline_state)). opId x = opId y \<longrightarrow> x = y"
    by (simp add: offline_state_def create_a_def create_b_def)
  have closed: "\<not> socket_is_open offline_state"
    by (simp add: socket_is_open_def offline_state_def defaultState_def)
  have a: "create_a \<in> set (storageOperations (buffer offline_state)) \<and> opId create_a = Some ''2:0''"
    by (simp add: offline_state_def create_a_def)
  have b: "create_b \<in> set (storageOperations (buffer offline_state)) \<and> opId create_b = Some ''2:1''"
    by (simp add: offline_state_def create_b_def)
  have t: "trace offline_state = []" by (simp add: offline_state_def defaultState_def)
  have missing: "\<exists>x\<in>set (storageOperations (buffer unidentified_state)). opId x = None"
    by (simp add: unidentified_state_def delete_op_def)
  have u: "storageOperations (buffer unidentified_state) = [create_a, delete_op ''2:1'']
           \<and> opId (delete_op ''2:1'') = None \<and> trace unidentified_state = []"
    by (simp add: unidentified_state_def delete_op_def defaultState_def)
  have first: "fst (tryFlushing browser_env offline_state) = None
     \<and> kv_get (offlineOperations (snd (tryFlushing browser_env offline_state))) ''2:0''
         = Some create_a
     \<and> kv_get (offlineOperations (snd (tryFlushing browser_env offline_state))) ''2:1''
         = Some create_b
     \<and> storageOperations (buffer (snd (tryFlushing browser_env offline_state))) = []
     \<and> trace (snd (tryFlushing browser_env offline_state)) = []"
    using tryFlushing_records_offline [of offline_state browser_env] ids same closed a b t
    by auto
  have second: "fst (tryFlushing browser_env unidentified_state) = Some AssertionFailed
     \<and> buffer (snd (tryFlushing browser_env unidentified_state)) = buffer unidentified_state
     \<and> trace (snd (tryFlushing browser_env unidentified_state)) = []"
    using tryFlushing_records_offline [of unidentified_state browser_env] missing u by auto
  show ?thesis using first second closed a b u by (simp add: offline_state_def)
qed

text \<open>
  C7. The claim says that \<^verbatim>\<open>connect()\<close> from \<^verbatim>\<open>closed\<close> or \<^verbatim>\<open>unavailable\<close> sets the
  connection to \<^verbatim>\<open>authenticating\<close> and calls \<^verbatim>\<open>effects.authenticate\<close>. Before that,
  \<^verbatim>\<open>connect()\<close> prepares the auth endpoint and the socket factory, and both throw when
  there is neither a window nor the polyfill they need: on a fresh machine in such an
  environment \<^verbatim>\<open>connect()\<close> throws, the connection stays \<^verbatim>\<open>closed\<close> and
  \<^verbatim>\<open>effects.authenticate\<close> is not called.
\<close>

theorem connect_without_polyfill:
  "connection (defaultState None None) = Closed
   \<and> fst (connect node_env (defaultState None None)) = Inl NoFetchPolyfill
   \<and> connection (snd (connect node_env (defaultState None None))) \<noteq> Authenticating
   \<and> Authenticate \<notin> set (trace (snd (connect node_env (defaultState None None))))"
  by (simp add: connect_def prepareAuthEndpoint_def node_env_def browser_env_def defaultState_def)

text \<open>
  C7, as amended. In every state other than \<^verbatim>\<open>closed\<close> and \<^verbatim>\<open>unavailable\<close>,
  \<^verbatim>\<open>connect()\<close> returns \<^verbatim>\<open>null\<close> and leaves the whole state, trace included, as it was.
  In \<^verbatim>\<open>closed\<close> or \<^verbatim>\<open>unavailable\<close>, when the auth endpoint and the socket factory can be
  prepared, it sets the connection to \<^verbatim>\<open>authenticating\<close>, tells the connection
  listeners and calls \<^verbatim>\<open>effects.authenticate\<close>, and changes nothing else; when they
  cannot be prepared, it throws and leaves the state as it was.
\<close>

theorem connect_cases:
  "(connection s \<noteq> Closed \<and> connection s \<noteq> Unavailable
      \<longrightarrow> connect e s = (Inr ReturnsNull, s))
   \<and> ((connection s = Closed \<or> connection s = Unavailable)
       \<and> prepareAuthEndpoint e = Inr () \<and> prepareCreateWebSocket e = Inr ()
      \<longrightarrow> connect e s =
            (Inr ReturnsUndefined,
             s\<lparr>connection := Authenticating,
               trace := trace s @ [SetConnection Authenticating]
                          @ map (\<lambda>l. ConnectionListener l ''authenticating'')
                              (on_connection (listeners s))
                          @ [Authenticate]\<rparr>))
   \<and> ((connection s = Closed \<or> connection s = Unavailable)
       \<and> (prepareAuthEndpoint e \<noteq> Inr () \<or> prepareCreateWebSocket e \<noteq> Inr ())
      \<longrightarrow> (\<exists>err. connect e s = (Inl err, s)))"
  by (cases "connection s")
     (auto simp: connect_def updateConnection_def emit_def Let_def split: sum.splits)

theorem connect_cases_witness:
  "connection open_state \<noteq> Closed \<and> connection open_state \<noteq> Unavailable
   \<and> connect browser_env open_state = (Inr ReturnsNull, open_state)
   \<and> connection (defaultState None None) = Closed
   \<and> prepareAuthEndpoint browser_env = Inr () \<and> prepareCreateWebSocket browser_env = Inr ()
   \<and> fst (connect browser_env (defaultState None None)) = Inr ReturnsUndefined
   \<and> connection (snd (connect browser_env (defaultState None None))) = Authenticating
   \<and> trace (snd (connect browser_env (defaultState None None))) =
       [SetConnection Authenticating, Authenticate]
   \<and> prepareAuthEndpoint node_env \<noteq> Inr ()
   \<and> (\<exists>err. connect node_env (defaultState None None) = (Inl err, defaultState None None))"
proof -
  have p: "prepareAuthEndpoint browser_env = Inr () \<and> prepareCreateWebSocket browser_env = Inr ()"
    by (simp add: prepareAuthEndpoint_def prepareCreateWebSocket_def browser_env_def)
  have q: "prepareAuthEndpoint node_env \<noteq> Inr ()"
    by (simp add: prepareAuthEndpoint_def node_env_def browser_env_def)
  have o: "connection open_state \<noteq> Closed \<and> connection open_state \<noteq> Unavailable"
    by (simp add: open_state_def)
  have d: "connection (defaultState None None) = Closed
           \<and> trace (defaultState None None) = []
           \<and> on_connection (listeners (defaultState None None)) = []"
    by (simp add: defaultState_def)
  show ?thesis
    using connect_cases [of open_state browser_env]
      connect_cases [of "defaultState None None" browser_env]
      connect_cases [of "defaultState None None" node_env] p q o d
    by simp
qed

text \<open>
  C8. The open handler is meant to install a full presence update only on a
  reconnection. The test \<^verbatim>\<open>state.lastConnectionId !== undefined\<close> holds for the initial
  \<^verbatim>\<open>null\<close> as well, so the handler installs the full update and flushes on the first
  connection too. In \<open>fresh_open_state\<close> no connection was ever open: the handler
  flushes twice, and the second flush, throttled by the first, arms the flush timer. In
  \<open>first_open_state\<close> the presence buffer is empty before the handler runs, and the
  handler sends a full presence update all the same.
\<close>

theorem onOpen_first_connection_rebroadcasts:
  "lastConnectionId fresh_open_state = None
   \<and> trace (snd (onOpen browser_env fresh_open_state)) =
       [ClearInterval 0, StartHeartbeatInterval, SetConnection (Open 7 None None),
        Send [UPDATE_PRESENCE [(''x'', JNum 1)] (Some (- 1))], DelayFlush 100]
   \<and> lastConnectionId first_open_state = None
   \<and> buf_presence (buffer first_open_state) = None
   \<and> trace (snd (onOpen browser_env first_open_state)) =
       [ClearInterval 0, StartHeartbeatInterval, SetConnection (Open 7 None None),
        Send [UPDATE_PRESENCE [(''x'', JNum 1)] (Some (- 1))], DelayFlush 100]
   \<and> lastConnectionId (snd (onOpen browser_env first_open_state)) = Some 7"
  by (simp add: onOpen_def first_open_state_def fresh_open_state_def defaultState_def
      browser_env_def updateConnection_def emit_def not_undefined_def tryFlushing_def
      and_then_def socket_is_open_def flushDataToMessages_def Let_def)

text \<open>
  C9. Outside a batch, \<^verbatim>\<open>undo()\<close> on an empty undo stack returns without changing any
  field of the state and without any call to a listener, a timer or an effect (the
  trace is a field of the state); \<^verbatim>\<open>redo()\<close> on an empty redo stack likewise.
\<close>

theorem undo_redo_empty_noop:
  "\<not> isBatching s \<Longrightarrow>
     (undoStack s = [] \<longrightarrow> undo e s = (None, s)) \<and> (redoStack s = [] \<longrightarrow> redo e s = (None, s))"
  by (simp add: undo_def redo_def)

theorem undo_redo_empty_noop_witness:
  "\<not> isBatching (defaultState None None)
   \<and> undoStack (defaultState None None) = [] \<and> redoStack (defaultState None None) = []
   \<and> undo browser_env (defaultState None None) = (None, defaultState None None)
   \<and> redo browser_env (defaultState None None) = (None, defaultState None None)"
  using undo_redo_empty_noop [of "defaultState None None" browser_env]
  by (simp add: defaultState_def)

text \<open>
  C10. Outside a batch, an \<^verbatim>\<open>undo()\<close> or \<^verbatim>\<open>redo()\<close> that pops an entry leaves
  \<^verbatim>\<open>isHistoryPaused\<close> false and \<^verbatim>\<open>pausedHistory\<close> as it was, also when the call throws
  on its way. The entries collected during the pause are not moved to the undo stack:
  after \<^verbatim>\<open>undo()\<close> the undo stack is the old one without its last entry, and after
  \<^verbatim>\<open>redo()\<close> it is the old one, followed by the reverse entry that \<^verbatim>\<open>apply\<close> returned
  when \<^verbatim>\<open>apply\<close> did not throw. (\<^verbatim>\<open>resumeHistory\<close> would have appended them as one entry
  and emptied \<^verbatim>\<open>pausedHistory\<close>: lemma \<open>resumeHistory_flushes\<close>.)
\<close>

theorem undo_redo_unpause_keep_pausedHistory:
  assumes "\<not> isBatching s"
  shows "(undoStack s \<noteq> [] \<longrightarrow>
            \<not> isHistoryPaused (snd (undo e s))
            \<and> pausedHistory (snd (undo e s)) = pausedHistory s
            \<and> undoStack (snd (undo e s)) = butlast (undoStack s))
       \<and> (redoStack s \<noteq> [] \<longrightarrow>
            \<not> isHistoryPaused (snd (redo e s))
            \<and> pausedHistory (snd (redo e s)) = pausedHistory s
            \<and> undoStack (snd (redo e s)) =
                (case fst (apply_item e (last (redoStack s)) True
                             (s\<lparr>redoStack := butlast (redoStack s), isHistoryPaused := False\<rparr>)) of
                   Inl err \<Rightarrow> undoStack s
                 | Inr r \<Rightarrow> undoStack s @ [reverse r]))"
proof (intro conjI impI)
  assume ne: "undoStack s \<noteq> []"
  note u = undo_unpause [OF assms ne, of e]
  show "\<not> isHistoryPaused (snd (undo e s))" using u by (simp add: history_of_def)
  show "pausedHistory (snd (undo e s)) = pausedHistory s" using u by (simp add: history_of_def)
  show "undoStack (snd (undo e s)) = butlast (undoStack s)" using u by (simp add: history_of_def)
next
  assume ne: "redoStack s \<noteq> []"
  note r = redo_unpause [OF assms ne, of e]
  show "\<not> isHistoryPaused (snd (redo e s))" using r by (simp add: history_of_def)
  show "pausedHistory (snd (redo e s)) = pausedHistory s" using r by (simp add: history_of_def)
  show "undoStack (snd (redo e s)) =
          (case fst (apply_item e (last (redoStack s)) True
                       (s\<lparr>redoStack := butlast (redoStack s), isHistoryPaused := False\<rparr>)) of
             Inl err \<Rightarrow> undoStack s
           | Inr r \<Rightarrow> undoStack s @ [reverse r])"
    using r by (simp add: history_of_def)
qed

theorem undo_redo_unpause_keep_pausedHistory_witness:
  "\<not> isBatching paused_state \<and> undoStack paused_state \<noteq> [] \<and> redoStack paused_state \<noteq> []
   \<and> isHistoryPaused paused_state
   \<and> \<not> isHistoryPaused (snd (undo browser_env paused_state))
   \<and> pausedHistory (snd (undo browser_env paused_state)) = [PresenceEntry [(''x'', JNum 1)]]
   \<and> undoStack (snd (undo browser_env paused_state)) = []
   \<and> \<not> isHistoryPaused (snd (redo browser_env paused_state))
   \<and> pausedHistory (snd (redo browser_env paused_state)) = [PresenceEntry [(''x'', JNum 1)]]"
  using undo_redo_unpause_keep_pausedHistory [of paused_state browser_env]
  by (simp add: paused_state_def defaultState_def)


end
